theory Spec2Isabelle
  imports Main "HOL-Library.Word" "HOL-Library.Sublist"
begin

section \<open>The host environment\<close>

text \<open>
  \<^verbatim>\<open>network_info.c\<close> talks to the operating system through \<^verbatim>\<open>getifaddrs\<close>,
  \<^verbatim>\<open>getnameinfo\<close>, \<^verbatim>\<open>fopen\<close>/\<^verbatim>\<open>getline\<close> and to PostgreSQL through
  \<^verbatim>\<open>ereport\<close> and \<^verbatim>\<open>tuplestore_putvalues\<close>. The environment is a parameter of the
  model: one value of type \<open>os\<close> fixes what each of these calls answers during one
  snapshot.

  Character buffers of size \<^verbatim>\<open>MAXPGPATH\<close> are modelled by the C string they hold (the
  bytes before the first NUL; a buffer cleared by \<^verbatim>\<open>memset\<close> is the empty string).
  The model covers the runs in which every string fits its buffer; beyond that the C
  program has undefined behaviour.
\<close>

record sockaddr =
  sa_family :: "16 word"
  sa_data :: "8 word list"

definition AF_INET :: "16 word" where
  "AF_INET = 2"

text \<open>One node of the linked list returned by \<^verbatim>\<open>getifaddrs\<close>; the list itself is a HOL
  list, \<^verbatim>\<open>ifa_next\<close> being its tail. \<^verbatim>\<open>ifa_addr\<close> may be \<^verbatim>\<open>NULL\<close>.\<close>

record ifaddrs =
  ifa_name :: string
  ifa_addr :: "sockaddr option"

text \<open>An opened stream: either every read fails, or it delivers the given text.\<close>

datatype FILE = ReadError | Stream string

record os =
  getifaddrs :: "ifaddrs list option"
  getnameinfo :: "sockaddr \<Rightarrow> int \<times> string"
  gai_strerror :: "int \<Rightarrow> string"
  fopen :: "string \<Rightarrow> FILE option"

text \<open>
  \<open>getifaddrs os = None\<close> is the call returning \<^verbatim>\<open>-1\<close>. \<open>getnameinfo os sa\<close> is the
  return value of the call together with the text it writes into \<^verbatim>\<open>host\<close> when that
  value is \<^verbatim>\<open>0\<close>; on a failure the buffer is left as it was. \<open>fopen os path = None\<close>
  is \<^verbatim>\<open>fopen\<close> returning \<^verbatim>\<open>NULL\<close>.
\<close>

section \<open>PostgreSQL: error reports and the tuple store\<close>

datatype elevel = WARNING | ERROR

datatype sqlerrcode = ERRCODE_INVALID_PARAMETER_VALUE | errcode_for_file_access

record error_data =
  elevel :: elevel
  sqlerrcode :: sqlerrcode
  message :: string

datatype attr =
    Anum_net_interface_name | Anum_net_ipv4_address | Anum_net_ipv6_address
  | Anum_net_speed_mbps
  | Anum_net_tx_bytes | Anum_net_tx_packets | Anum_net_tx_errors | Anum_net_tx_dropped
  | Anum_net_rx_bytes | Anum_net_rx_packets | Anum_net_rx_errors | Anum_net_rx_dropped

text \<open>One stored tuple: the \<^verbatim>\<open>values\<close> array, an entry per attribute, and the
  \<^verbatim>\<open>nulls\<close> array as the set of attributes flagged null. Integer datums are the
  64-bit patterns of the counters.\<close>

record network_info =
  net_interface_name :: string
  net_ipv4_address :: string
  net_ipv6_address :: string
  net_speed_mbps :: "64 word"
  net_tx_bytes :: "64 word"
  net_tx_packets :: "64 word"
  net_tx_errors :: "64 word"
  net_tx_dropped :: "64 word"
  net_rx_bytes :: "64 word"
  net_rx_packets :: "64 word"
  net_rx_errors :: "64 word"
  net_rx_dropped :: "64 word"
  net_nulls :: "attr set"

text \<open>What a call leaves behind outside its own local variables: the server log, the
  tuple store, the streams opened and not yet closed, and the number of interface lists
  obtained and not yet released.\<close>

record world =
  server_log :: "error_data list"
  tupstore :: "network_info list"
  open_files :: "string list"
  ifaddrs_held :: nat

text \<open>
  \<^verbatim>\<open>ereport(elevel, ...)\<close>: the report is written to the log; at level \<^verbatim>\<open>ERROR\<close>
  control does not come back to the caller (PostgreSQL unwinds to the enclosing
  handler), which is the \<open>Inl\<close> result here. At \<^verbatim>\<open>WARNING\<close> the call returns.
\<close>

definition ereport :: "elevel \<Rightarrow> sqlerrcode \<Rightarrow> string \<Rightarrow> world \<Rightarrow> (error_data + unit) \<times> world" where
  "ereport lev code msg w =
     (let edata = \<lparr>elevel = lev, sqlerrcode = code, message = msg\<rparr>;
          w' = w\<lparr>server_log := server_log w @ [edata]\<rparr>
      in if lev = ERROR then (Inl edata, w') else (Inr (), w'))"

definition tuplestore_putvalues :: "network_info \<Rightarrow> world \<Rightarrow> world" where
  "tuplestore_putvalues row w = w\<lparr>tupstore := tupstore w @ [row]\<rparr>"

section \<open>The C library: getline and atoll\<close>

definition newline :: char where
  "newline = CHR 0x0A"

text \<open>\<^verbatim>\<open>getline\<close>: the first line with its terminating newline when there is one, and
  its length; \<^verbatim>\<open>-1\<close> when nothing can be read (end of file at once, or a read error).\<close>

definition getline :: "FILE \<Rightarrow> int \<times> string" where
  "getline fp =
     (case fp of
        ReadError \<Rightarrow> (- 1, [])
      | Stream s \<Rightarrow>
          (if s = [] then (- 1, [])
           else (let line = takeWhile (\<lambda>c. c \<noteq> newline) s;
                     line_buf = (if length line < length s then line @ [newline] else line)
                 in (int (length line_buf), line_buf))))"

definition isspace :: "char \<Rightarrow> bool" where
  "isspace c = (c \<in> set [CHR '' '', CHR 0x09, CHR 0x0A, CHR 0x0B, CHR 0x0C, CHR 0x0D])"

definition isdigit :: "char \<Rightarrow> bool" where
  "isdigit c = (c \<in> set ''0123456789'')"

definition digit_value :: "char \<Rightarrow> int" where
  "digit_value c = of_char c - 48"

text \<open>The decimal digits at the front of the string, accumulated from the left.\<close>

fun digits_value :: "int \<Rightarrow> string \<Rightarrow> int" where
  "digits_value acc [] = acc"
| "digits_value acc (c # cs) =
     (if isdigit c then digits_value (10 * acc + digit_value c) cs else acc)"

definition LLONG_MAX :: int where
  "LLONG_MAX = 2 ^ 63 - 1"

definition LLONG_MIN :: int where
  "LLONG_MIN = - (2 ^ 63)"

text \<open>
  \<^verbatim>\<open>atoll\<close> as the GNU C library computes it (\<^verbatim>\<open>strtoll (nptr, NULL, 10)\<close>): white
  space is skipped, one sign is read, then the decimal digits; no digits give 0, and a
  value outside \<^verbatim>\<open>long long\<close> is clamped to the nearest bound.
\<close>

definition atoll :: "string \<Rightarrow> int" where
  "atoll nptr =
     (let s = dropWhile isspace nptr
      in case s of
           [] \<Rightarrow> 0
         | c # cs \<Rightarrow>
             (if c = CHR ''-'' then max LLONG_MIN (- digits_value 0 cs)
              else if c = CHR ''+'' then min LLONG_MAX (digits_value 0 cs)
              else min LLONG_MAX (digits_value 0 s)))"

section \<open>Reading one counter file\<close>

text \<open>
  \<^verbatim>\<open>void ReadFileContent(const char *file_name, uint64 *data)\<close>. The out-parameter is
  passed as its value before the call and returned as its value after it. The
  assignment \<^verbatim>\<open>*data = atoll(line_buf)\<close> converts \<^verbatim>\<open>long long\<close> to \<^verbatim>\<open>uint64\<close>,
  that is, modulo \<open>2 ^ 64\<close>.
\<close>

definition ReadFileContent :: "os \<Rightarrow> string \<Rightarrow> 64 word \<Rightarrow> world \<Rightarrow> 64 word \<times> world" where
  "ReadFileContent env file_name data w =
     (case fopen env file_name of
        None \<Rightarrow>
          (let net_file_name = file_name
           in (data, snd (ereport WARNING errcode_for_file_access
                 (''can not open file '' @ net_file_name @ '' for reading network statistics'') w)))
      | Some fp \<Rightarrow>
          (let w1 = w\<lparr>open_files := file_name # open_files w\<rparr>;
               (line_size, line_buf) = getline fp;
               data' = (if line_size > 0 then word_of_int (atoll line_buf) else data);
               w2 = w1\<lparr>open_files := remove1 file_name (open_files w1)\<rparr>
           in (data', w2)))"

definition ReadReceiveBytes :: "os \<Rightarrow> string \<Rightarrow> 64 word \<Rightarrow> world \<Rightarrow> 64 word \<times> world" where
  "ReadReceiveBytes env interface rx_bytes w =
     ReadFileContent env (''/sys/class/net/'' @ interface @ ''/statistics/rx_bytes'') rx_bytes w"

definition ReadTransmitBytes :: "os \<Rightarrow> string \<Rightarrow> 64 word \<Rightarrow> world \<Rightarrow> 64 word \<times> world" where
  "ReadTransmitBytes env interface tx_bytes w =
     ReadFileContent env (''/sys/class/net/'' @ interface @ ''/statistics/tx_bytes'') tx_bytes w"

definition ReadReceivePackets :: "os \<Rightarrow> string \<Rightarrow> 64 word \<Rightarrow> world \<Rightarrow> 64 word \<times> world" where
  "ReadReceivePackets env interface rx_packets w =
     ReadFileContent env (''/sys/class/net/'' @ interface @ ''/statistics/rx_packets'') rx_packets w"

definition ReadTransmitPackets :: "os \<Rightarrow> string \<Rightarrow> 64 word \<Rightarrow> world \<Rightarrow> 64 word \<times> world" where
  "ReadTransmitPackets env interface tx_packets w =
     ReadFileContent env (''/sys/class/net/'' @ interface @ ''/statistics/tx_packets'') tx_packets w"

definition ReadReceiveErrors :: "os \<Rightarrow> string \<Rightarrow> 64 word \<Rightarrow> world \<Rightarrow> 64 word \<times> world" where
  "ReadReceiveErrors env interface rx_errors w =
     ReadFileContent env (''/sys/class/net/'' @ interface @ ''/statistics/rx_errors'') rx_errors w"

definition ReadTransmitErrors :: "os \<Rightarrow> string \<Rightarrow> 64 word \<Rightarrow> world \<Rightarrow> 64 word \<times> world" where
  "ReadTransmitErrors env interface tx_errors w =
     ReadFileContent env (''/sys/class/net/'' @ interface @ ''/statistics/tx_errors'') tx_errors w"

definition ReadReceiveDropped :: "os \<Rightarrow> string \<Rightarrow> 64 word \<Rightarrow> world \<Rightarrow> 64 word \<times> world" where
  "ReadReceiveDropped env interface rx_dropped w =
     ReadFileContent env (''/sys/class/net/'' @ interface @ ''/statistics/rx_dropped'') rx_dropped w"

definition ReadTransmitDropped :: "os \<Rightarrow> string \<Rightarrow> 64 word \<Rightarrow> world \<Rightarrow> 64 word \<times> world" where
  "ReadTransmitDropped env interface tx_dropped w =
     ReadFileContent env (''/sys/class/net/'' @ interface @ ''/statistics/tx_dropped'') tx_dropped w"

definition ReadSpeedMbps :: "os \<Rightarrow> string \<Rightarrow> 64 word \<Rightarrow> world \<Rightarrow> 64 word \<times> world" where
  "ReadSpeedMbps env interface speed w =
     ReadFileContent env (''/sys/class/net/'' @ interface @ ''/speed'') speed w"

section \<open>The interface scan\<close>

text \<open>The local variables of \<^verbatim>\<open>ReadNetworkInformations\<close> that live across loop
  iterations. The \<^verbatim>\<open>values\<close> array is written in full before every use and is built
  where it is stored.\<close>

record locals =
  nulls :: "attr set"
  interface_name :: string
  ipv4_address :: string
  ipv6_address :: string
  speed_mbps :: "64 word"
  tx_bytes :: "64 word"
  tx_packets :: "64 word"
  tx_errors :: "64 word"
  tx_dropped :: "64 word"
  rx_bytes :: "64 word"
  rx_packets :: "64 word"
  rx_errors :: "64 word"
  rx_dropped :: "64 word"
  host :: string

text \<open>Lines 174 to 195: the initialisers and the \<^verbatim>\<open>memset\<close> calls before the list is
  requested.\<close>

definition initial_locals :: locals where
  "initial_locals =
     \<lparr>nulls = {}, interface_name = [], ipv4_address = [], ipv6_address = [],
      speed_mbps = 0, tx_bytes = 0, tx_packets = 0, tx_errors = 0, tx_dropped = 0,
      rx_bytes = 0, rx_packets = 0, rx_errors = 0, rx_dropped = 0, host = []\<rparr>"

text \<open>\<^verbatim>\<open>memcpy(dst, src, strlen(src))\<close>: the first \<open>length src\<close> bytes of the
  destination are replaced and no terminator is written, so a longer string already in
  the destination keeps its tail.\<close>

definition memcpy_strlen :: "string \<Rightarrow> string \<Rightarrow> string" where
  "memcpy_strlen dst src = src @ drop (length src) dst"

text \<open>Lines 228 to 268: the body of the \<^verbatim>\<open>AF_INET\<close> branch after the conversion
  check: copy name and address, read the nine counters, store the tuple, reset.\<close>

definition read_and_store :: "os \<Rightarrow> ifaddrs \<Rightarrow> locals \<Rightarrow> world \<Rightarrow> locals \<times> world" where
  "read_and_store env ifa l w =
     (let l1 = l\<lparr>interface_name := memcpy_strlen (interface_name l) (ifa_name ifa),
                 ipv4_address := host l\<rparr>;
          (v1, w1) = ReadSpeedMbps env (interface_name l1) (speed_mbps l1) w;
          (v2, w2) = ReadReceiveBytes env (interface_name l1) (rx_bytes l1) w1;
          (v3, w3) = ReadTransmitBytes env (interface_name l1) (tx_bytes l1) w2;
          (v4, w4) = ReadReceivePackets env (interface_name l1) (rx_packets l1) w3;
          (v5, w5) = ReadTransmitPackets env (interface_name l1) (tx_packets l1) w4;
          (v6, w6) = ReadReceiveErrors env (interface_name l1) (rx_errors l1) w5;
          (v7, w7) = ReadTransmitErrors env (interface_name l1) (tx_errors l1) w6;
          (v8, w8) = ReadReceiveDropped env (interface_name l1) (rx_dropped l1) w7;
          (v9, w9) = ReadTransmitDropped env (interface_name l1) (tx_dropped l1) w8;
          l2 = l1\<lparr>speed_mbps := v1, rx_bytes := v2, tx_bytes := v3, rx_packets := v4,
                  tx_packets := v5, rx_errors := v6, tx_errors := v7, rx_dropped := v8,
                  tx_dropped := v9\<rparr>;
          values = \<lparr>net_interface_name = interface_name l2,
                    net_ipv4_address = ipv4_address l2,
                    net_ipv6_address = ipv6_address l2,
                    net_speed_mbps = speed_mbps l2,
                    net_tx_bytes = tx_bytes l2,
                    net_tx_packets = tx_packets l2,
                    net_tx_errors = tx_errors l2,
                    net_tx_dropped = tx_dropped l2,
                    net_rx_bytes = rx_bytes l2,
                    net_rx_packets = rx_packets l2,
                    net_rx_errors = rx_errors l2,
                    net_rx_dropped = rx_dropped l2,
                    net_nulls = nulls l2\<rparr>;
          w10 = tuplestore_putvalues values w9;
          l3 = l2\<lparr>interface_name := [], ipv4_address := [], ipv6_address := [],
                  speed_mbps := 0, tx_bytes := 0, tx_packets := 0, tx_errors := 0,
                  tx_dropped := 0, rx_bytes := 0, rx_packets := 0, rx_errors := 0,
                  rx_dropped := 0\<rparr>
      in (l3, w10))"

text \<open>Lines 210 to 269: one iteration of the loop, for the list node \<open>ifa\<close>. \<open>Inl\<close> is
  the \<^verbatim>\<open>ERROR\<close> report leaving the function; the assignment to \<^verbatim>\<open>nulls\<close> that follows
  the report in the source is kept where the source has it.\<close>

definition scan_entry :: "os \<Rightarrow> ifaddrs \<Rightarrow> locals \<Rightarrow> world \<Rightarrow> (error_data + locals) \<times> world" where
  "scan_entry env ifa l w =
     (case ifa_addr ifa of
        None \<Rightarrow> (Inr l, w)
      | Some sa \<Rightarrow>
          (let (ret_val, text) = getnameinfo env sa;
               l1 = l\<lparr>host := (if ret_val = 0 then text else host l)\<rparr>
           in if sa_family sa = AF_INET then
                (case (if ret_val \<noteq> 0 then
                         (case ereport ERROR ERRCODE_INVALID_PARAMETER_VALUE
                                 (''getnameinfo() failed: '' @ gai_strerror env ret_val) w of
                            (Inl e, w') \<Rightarrow> (Inl e, w')
                          | (Inr u, w') \<Rightarrow>
                              (Inr (l1\<lparr>nulls := insert Anum_net_ipv4_address (nulls l1)\<rparr>), w'))
                       else (Inr l1, w)) of
                   (Inl e, w') \<Rightarrow> (Inl e, w')
                 | (Inr l2, w') \<Rightarrow>
                     (let (l3, w'') = read_and_store env ifa l2 w' in (Inr l3, w'')))
              else (Inr l1, w)))"

text \<open>The \<^verbatim>\<open>for\<close> loop over the list.\<close>

fun scan_loop :: "os \<Rightarrow> ifaddrs list \<Rightarrow> locals \<Rightarrow> world \<Rightarrow> (error_data + locals) \<times> world" where
  "scan_loop env [] l w = (Inr l, w)"
| "scan_loop env (ifa # ifa_next) l w =
     (case scan_entry env ifa l w of
        (Inl e, w') \<Rightarrow> (Inl e, w')
      | (Inr l', w') \<Rightarrow> scan_loop env ifa_next l' w')"

definition freeifaddrs :: "world \<Rightarrow> world" where
  "freeifaddrs w = w\<lparr>ifaddrs_held := ifaddrs_held w - 1\<rparr>"

text \<open>\<^verbatim>\<open>void ReadNetworkInformations(Tuplestorestate *tupstore, TupleDesc tupdesc)\<close>:
  the tuple store is the \<open>tupstore\<close> component of the world.\<close>

definition ReadNetworkInformations :: "os \<Rightarrow> world \<Rightarrow> (error_data + unit) \<times> world" where
  "ReadNetworkInformations env w =
     (let l = initial_locals
      in case getifaddrs env of
           None \<Rightarrow>
             (case ereport ERROR ERRCODE_INVALID_PARAMETER_VALUE ''Failed to get network interface'' w of
                (Inl e, w') \<Rightarrow> (Inl e, w')
              | (Inr u, w') \<Rightarrow> (Inr (), w'))
         | Some ifaddr \<Rightarrow>
             (let w1 = w\<lparr>ifaddrs_held := ifaddrs_held w + 1\<rparr>
              in case scan_loop env ifaddr l w1 of
                   (Inl e, w') \<Rightarrow> (Inl e, w')
                 | (Inr l', w') \<Rightarrow> (Inr (), freeifaddrs w')))"

section \<open>Vocabulary of the specification\<close>

text \<open>The nine counter kinds of the specification, and \<open>ReadCounter\<close> as the family of
  the nine reading functions of the source.\<close>

datatype counter_kind =
    link_speed
  | receive_bytes | transmit_bytes
  | receive_packets | transmit_packets
  | receive_errors | transmit_errors
  | receive_dropped | transmit_dropped

definition ReadCounter :: "os \<Rightarrow> counter_kind \<Rightarrow> string \<Rightarrow> 64 word \<Rightarrow> world \<Rightarrow> 64 word \<times> world" where
  "ReadCounter env k =
     (case k of
        link_speed \<Rightarrow> ReadSpeedMbps env
      | receive_bytes \<Rightarrow> ReadReceiveBytes env
      | transmit_bytes \<Rightarrow> ReadTransmitBytes env
      | receive_packets \<Rightarrow> ReadReceivePackets env
      | transmit_packets \<Rightarrow> ReadTransmitPackets env
      | receive_errors \<Rightarrow> ReadReceiveErrors env
      | transmit_errors \<Rightarrow> ReadTransmitErrors env
      | receive_dropped \<Rightarrow> ReadReceiveDropped env
      | transmit_dropped \<Rightarrow> ReadTransmitDropped env)"

text \<open>The file a counter kind is read from, for one interface.\<close>

definition counter_path :: "counter_kind \<Rightarrow> string \<Rightarrow> string" where
  "counter_path k interface =
     ''/sys/class/net/'' @ interface @
       (case k of
          link_speed \<Rightarrow> ''/speed''
        | receive_bytes \<Rightarrow> ''/statistics/rx_bytes''
        | transmit_bytes \<Rightarrow> ''/statistics/tx_bytes''
        | receive_packets \<Rightarrow> ''/statistics/rx_packets''
        | transmit_packets \<Rightarrow> ''/statistics/tx_packets''
        | receive_errors \<Rightarrow> ''/statistics/rx_errors''
        | transmit_errors \<Rightarrow> ''/statistics/tx_errors''
        | receive_dropped \<Rightarrow> ''/statistics/rx_dropped''
        | transmit_dropped \<Rightarrow> ''/statistics/tx_dropped'')"

text \<open>The field of a stored tuple that holds a counter kind.\<close>

definition counter_field :: "counter_kind \<Rightarrow> network_info \<Rightarrow> 64 word" where
  "counter_field k =
     (case k of
        link_speed \<Rightarrow> net_speed_mbps
      | receive_bytes \<Rightarrow> net_rx_bytes
      | transmit_bytes \<Rightarrow> net_tx_bytes
      | receive_packets \<Rightarrow> net_rx_packets
      | transmit_packets \<Rightarrow> net_tx_packets
      | receive_errors \<Rightarrow> net_rx_errors
      | transmit_errors \<Rightarrow> net_tx_errors
      | receive_dropped \<Rightarrow> net_rx_dropped
      | transmit_dropped \<Rightarrow> net_tx_dropped)"

text \<open>An address entry bound to an IPv4 address.\<close>

definition ipv4_bound :: "ifaddrs \<Rightarrow> bool" where
  "ipv4_bound ifa = (case ifa_addr ifa of None \<Rightarrow> False | Some sa \<Rightarrow> sa_family sa = AF_INET)"

text \<open>The numeric-host conversion of an entry's address succeeds.\<close>

definition converts :: "os \<Rightarrow> ifaddrs \<Rightarrow> bool" where
  "converts env ifa = (case ifa_addr ifa of None \<Rightarrow> True | Some sa \<Rightarrow> fst (getnameinfo env sa) = 0)"

text \<open>The working state that the loop resets after each stored tuple.\<close>

definition scratch_clear :: "locals \<Rightarrow> bool" where
  "scratch_clear l =
     (nulls l = {} \<and> interface_name l = [] \<and> ipv4_address l = [] \<and> ipv6_address l = [] \<and>
      speed_mbps l = 0 \<and> tx_bytes l = 0 \<and> tx_packets l = 0 \<and> tx_errors l = 0 \<and>
      tx_dropped l = 0 \<and> rx_bytes l = 0 \<and> rx_packets l = 0 \<and> rx_errors l = 0 \<and>
      rx_dropped l = 0)"

text \<open>An entry at which the scan is left with a hard error.\<close>

definition aborts_at :: "os \<Rightarrow> ifaddrs \<Rightarrow> bool" where
  "aborts_at env ifa = (ipv4_bound ifa \<and> \<not> converts env ifa)"

text \<open>A world in which nothing has happened yet.\<close>

definition empty_world :: world where
  "empty_world = \<lparr>server_log = [], tupstore = [], open_files = [], ifaddrs_held = 0\<rparr>"

text \<open>What \<^verbatim>\<open>ReadFileContent\<close> leaves in \<^verbatim>\<open>*data\<close>, and what a counter reader leaves in
  a counter that was 0 before the call.\<close>

definition file_value :: "os \<Rightarrow> string \<Rightarrow> 64 word \<Rightarrow> 64 word" where
  "file_value env p d = fst (ReadFileContent env p d empty_world)"

definition counter_value :: "os \<Rightarrow> counter_kind \<Rightarrow> string \<Rightarrow> 64 word" where
  "counter_value env k interface = fst (ReadCounter env k interface 0 empty_world)"

text \<open>The warning that reports a file that cannot be opened.\<close>

definition open_warning :: "string \<Rightarrow> error_data" where
  "open_warning p =
     \<lparr>elevel = WARNING, sqlerrcode = errcode_for_file_access,
      message = ''can not open file '' @ p @ '' for reading network statistics''\<rparr>"

text \<open>The record the specification expects for an IPv4-bound entry whose address
  converts: its name, the converted address, no IPv6 address, each counter as its own
  reader delivers it, and no null flag.\<close>

definition expected_record :: "os \<Rightarrow> ifaddrs \<Rightarrow> network_info" where
  "expected_record env ifa =
     \<lparr>net_interface_name = ifa_name ifa,
      net_ipv4_address = (case ifa_addr ifa of None \<Rightarrow> [] | Some sa \<Rightarrow> snd (getnameinfo env sa)),
      net_ipv6_address = [],
      net_speed_mbps = counter_value env link_speed (ifa_name ifa),
      net_tx_bytes = counter_value env transmit_bytes (ifa_name ifa),
      net_tx_packets = counter_value env transmit_packets (ifa_name ifa),
      net_tx_errors = counter_value env transmit_errors (ifa_name ifa),
      net_tx_dropped = counter_value env transmit_dropped (ifa_name ifa),
      net_rx_bytes = counter_value env receive_bytes (ifa_name ifa),
      net_rx_packets = counter_value env receive_packets (ifa_name ifa),
      net_rx_errors = counter_value env receive_errors (ifa_name ifa),
      net_rx_dropped = counter_value env receive_dropped (ifa_name ifa),
      net_nulls = {}\<rparr>"

text \<open>The number a string of decimal digits denotes.\<close>

fun decimal :: "string \<Rightarrow> int" where
  "decimal [] = 0"
| "decimal (c # cs) = digit_value c * 10 ^ length cs + decimal cs"

section \<open>Simulated hosts\<close>

text \<open>A host given by its interface list, the numeric form of each address that
  converts (every other conversion fails with \<^verbatim>\<open>EAI_MEMORY\<close>), and the files that can
  be opened.\<close>

definition EAI_MEMORY :: int where
  "EAI_MEMORY = - 10"

definition simulated_host ::
  "ifaddrs list option \<Rightarrow> (8 word list \<times> string) list \<Rightarrow> (string \<times> FILE) list \<Rightarrow> os" where
  "simulated_host ifaddr numeric files =
     \<lparr>getifaddrs = ifaddr,
      getnameinfo = (\<lambda>sa. case map_of numeric (sa_data sa) of
                            None \<Rightarrow> (EAI_MEMORY, [])
                          | Some text \<Rightarrow> (0, text)),
      gai_strerror = (\<lambda>e. ''Memory allocation failure''),
      fopen = map_of files\<rparr>"

definition inet :: "string \<Rightarrow> 8 word list \<Rightarrow> ifaddrs" where
  "inet name bytes = \<lparr>ifa_name = name, ifa_addr = Some \<lparr>sa_family = AF_INET, sa_data = bytes\<rparr>\<rparr>"

definition packet :: "string \<Rightarrow> ifaddrs" where
  "packet name = \<lparr>ifa_name = name, ifa_addr = Some \<lparr>sa_family = 17, sa_data = []\<rparr>\<rparr>"

text \<open>\<open>eth0\<close> fails to convert and \<open>eth1\<close> follows it.\<close>

definition host_first_fails :: os where
  "host_first_fails =
     simulated_host (Some [inet ''eth0'' [192, 0, 2, 1], inet ''eth1'' [10, 0, 0, 5]])
       [([10, 0, 0, 5], ''10.0.0.5'')] []"

text \<open>Two IPv4 addresses on the one interface \<open>eth0\<close>.\<close>

definition host_two_addresses :: os where
  "host_two_addresses =
     simulated_host (Some [inet ''eth0'' [10, 0, 0, 5], inet ''eth0'' [10, 0, 0, 6]])
       [([10, 0, 0, 5], ''10.0.0.5''), ([10, 0, 0, 6], ''10.0.0.6'')] []"

text \<open>\<open>lo\<close> converts and \<open>eth0\<close>, after it, does not.\<close>

definition host_last_fails :: os where
  "host_last_fails =
     simulated_host (Some [inet ''lo'' [127, 0, 0, 1], inet ''eth0'' [192, 0, 2, 1]])
       [([127, 0, 0, 1], ''127.0.0.1'')] []"

text \<open>Three IPv4-bound entries, the second of which does not convert.\<close>

definition host_middle_fails :: os where
  "host_middle_fails =
     simulated_host
       (Some [inet ''eth0'' [10, 0, 0, 5], inet ''eth1'' [192, 0, 2, 1], inet ''eth2'' [10, 0, 0, 7]])
       [([10, 0, 0, 5], ''10.0.0.5''), ([10, 0, 0, 7], ''10.0.0.7'')] []"

text \<open>No interface list at all.\<close>

definition host_no_list :: os where
  "host_no_list = simulated_host None [] []"

text \<open>The end-to-end scenario of the specification: \<open>eth0\<close> with address 10.0.0.5 and
  only its \<^verbatim>\<open>rx_bytes\<close> file, and \<open>lo\<close> without an IPv4 address.\<close>

definition host_scenario :: os where
  "host_scenario =
     simulated_host (Some [packet ''lo'', inet ''eth0'' [10, 0, 0, 5]])
       [([10, 0, 0, 5], ''10.0.0.5'')]
       [(''/sys/class/net/eth0/statistics/rx_bytes'', Stream ''500'')]"

text \<open>A virtual interface whose speed file reports \<^verbatim>\<open>-1\<close>.\<close>

definition host_virtual :: os where
  "host_virtual =
     simulated_host (Some [inet ''veth0'' [10, 0, 0, 9]])
       [([10, 0, 0, 9], ''10.0.0.9'')]
       [(''/sys/class/net/veth0/speed'', Stream ''-1\<newline>'')]"

text \<open>A host on which one file holds the given stream.\<close>

definition host_with_file :: "string \<Rightarrow> FILE \<Rightarrow> os" where
  "host_with_file p f = simulated_host (Some []) [] [(p, f)]"

section \<open>Auxiliary facts\<close>

subsection \<open>One file, one entry, the loop\<close>

lemmas Read_defs =
  ReadSpeedMbps_def ReadReceiveBytes_def ReadTransmitBytes_def ReadReceivePackets_def
  ReadTransmitPackets_def ReadReceiveErrors_def ReadTransmitErrors_def
  ReadReceiveDropped_def ReadTransmitDropped_def

lemma ReadCounter_path:
  "ReadCounter env k interface = ReadFileContent env (counter_path k interface)"
  by (cases k) (simp_all add: ReadCounter_def counter_path_def Read_defs fun_eq_iff)

lemma ReadFileContent_value:
  "fst (ReadFileContent env p d w) =
     (case fopen env p of None \<Rightarrow> d
      | Some fp \<Rightarrow> (if fst (getline fp) > 0 then word_of_int (atoll (snd (getline fp))) else d))"
  by (simp add: ReadFileContent_def Let_def split: option.splits prod.splits)

lemma ReadFileContent_fst:
  "fst (ReadFileContent env p d w) = file_value env p d"
  by (simp add: ReadFileContent_value file_value_def)

lemma counter_value_path:
  "counter_value env k interface = file_value env (counter_path k interface) 0"
  by (simp add: counter_value_def ReadCounter_path file_value_def)

lemma ReadFileContent_tupstore [simp]:
  "tupstore (snd (ReadFileContent env p d w)) = tupstore w"
  by (simp add: ReadFileContent_def ereport_def Let_def split: option.splits prod.splits)

lemma ReadFileContent_open_files [simp]:
  "open_files (snd (ReadFileContent env p d w)) = open_files w"
  by (simp add: ReadFileContent_def ereport_def Let_def split: option.splits prod.splits)

lemma ReadFileContent_ifaddrs_held [simp]:
  "ifaddrs_held (snd (ReadFileContent env p d w)) = ifaddrs_held w"
  by (simp add: ReadFileContent_def ereport_def Let_def split: option.splits prod.splits)

lemma read_and_store_locals:
  "fst (read_and_store env ifa l w) =
     l\<lparr>interface_name := [], ipv4_address := [], ipv6_address := [],
       speed_mbps := 0, tx_bytes := 0, tx_packets := 0, tx_errors := 0,
       tx_dropped := 0, rx_bytes := 0, rx_packets := 0, rx_errors := 0, rx_dropped := 0\<rparr>"
  by (simp add: read_and_store_def Let_def split_beta)

lemma read_and_store_open_files [simp]:
  "open_files (snd (read_and_store env ifa l w)) = open_files w"
  by (simp add: read_and_store_def Let_def split_beta tuplestore_putvalues_def Read_defs)

lemma read_and_store_ifaddrs_held [simp]:
  "ifaddrs_held (snd (read_and_store env ifa l w)) = ifaddrs_held w"
  by (simp add: read_and_store_def Let_def split_beta tuplestore_putvalues_def Read_defs)

lemma read_and_store_tupstore:
  "scratch_clear l \<Longrightarrow>
   tupstore (snd (read_and_store env ifa l w)) =
     tupstore w @ [(expected_record env ifa)\<lparr>net_ipv4_address := host l\<rparr>]"
  by (simp add: read_and_store_def Let_def split_beta tuplestore_putvalues_def Read_defs
      scratch_clear_def expected_record_def counter_value_path counter_path_def memcpy_strlen_def
      ReadFileContent_fst)

lemma scan_entry_no_addr:
  "ifa_addr ifa = None \<Longrightarrow> scan_entry env ifa l w = (Inr l, w)"
  by (simp add: scan_entry_def)

lemma scan_entry_other_family:
  "ifa_addr ifa = Some sa \<Longrightarrow> sa_family sa \<noteq> AF_INET \<Longrightarrow>
   scan_entry env ifa l w =
     (Inr (l\<lparr>host := (if fst (getnameinfo env sa) = 0 then snd (getnameinfo env sa) else host l)\<rparr>), w)"
  by (simp add: scan_entry_def split_beta Let_def)

lemma scan_entry_ipv4_failed:
  "ifa_addr ifa = Some sa \<Longrightarrow> sa_family sa = AF_INET \<Longrightarrow> fst (getnameinfo env sa) \<noteq> 0 \<Longrightarrow>
   scan_entry env ifa l w =
     (Inl \<lparr>elevel = ERROR, sqlerrcode = ERRCODE_INVALID_PARAMETER_VALUE,
           message = ''getnameinfo() failed: '' @ gai_strerror env (fst (getnameinfo env sa))\<rparr>,
      w\<lparr>server_log := server_log w @
          [\<lparr>elevel = ERROR, sqlerrcode = ERRCODE_INVALID_PARAMETER_VALUE,
            message = ''getnameinfo() failed: '' @ gai_strerror env (fst (getnameinfo env sa))\<rparr>]\<rparr>)"
  by (simp add: scan_entry_def split_beta Let_def ereport_def)

lemma scan_entry_ipv4_converted:
  "ifa_addr ifa = Some sa \<Longrightarrow> sa_family sa = AF_INET \<Longrightarrow> fst (getnameinfo env sa) = 0 \<Longrightarrow>
   scan_entry env ifa l w =
     (Inr (fst (read_and_store env ifa (l\<lparr>host := snd (getnameinfo env sa)\<rparr>) w)),
      snd (read_and_store env ifa (l\<lparr>host := snd (getnameinfo env sa)\<rparr>) w))"
  by (simp add: scan_entry_def split_beta Let_def)


lemma scratch_clear_host [simp]: "scratch_clear (l\<lparr>host := h\<rparr>) = scratch_clear l"
  by (simp add: scratch_clear_def)

lemma scratch_clear_initial [simp]: "scratch_clear initial_locals"
  by (simp add: scratch_clear_def initial_locals_def)

lemma scan_entry_cases:
  obtains (no_addr) "ifa_addr ifa = None" "\<not> ipv4_bound ifa"
  | (other) sa where "ifa_addr ifa = Some sa" "sa_family sa \<noteq> AF_INET" "\<not> ipv4_bound ifa"
  | (failed) sa where "ifa_addr ifa = Some sa" "sa_family sa = AF_INET"
      "fst (getnameinfo env sa) \<noteq> 0" "ipv4_bound ifa" "\<not> converts env ifa"
  | (converted) sa where "ifa_addr ifa = Some sa" "sa_family sa = AF_INET"
      "fst (getnameinfo env sa) = 0" "ipv4_bound ifa" "converts env ifa"
proof (cases "ifa_addr ifa")
  case None
  then show ?thesis using no_addr by (simp add: ipv4_bound_def)
next
  case (Some sa)
  then show ?thesis
    using other [of sa] failed [of sa] converted [of sa]
    by (cases "sa_family sa = AF_INET"; cases "fst (getnameinfo env sa) = 0")
       (simp_all add: ipv4_bound_def converts_def)
qed

lemma scan_entry_result:
  "isl (fst (scan_entry env ifa l w)) = aborts_at env ifa"
  by (rule scan_entry_cases [where ifa = ifa and env = env])
     (simp_all add: aborts_at_def scan_entry_no_addr scan_entry_other_family
        scan_entry_ipv4_failed scan_entry_ipv4_converted)

lemma scan_entry_scratch:
  "scratch_clear l \<Longrightarrow> scan_entry env ifa l w = (Inr l', w') \<Longrightarrow> scratch_clear l'"
  by (rule scan_entry_cases [where ifa = ifa and env = env])
     (auto simp add: scan_entry_no_addr scan_entry_other_family
        scan_entry_ipv4_failed scan_entry_ipv4_converted read_and_store_locals scratch_clear_def)

lemma scan_entry_tupstore:
  "scratch_clear l \<Longrightarrow>
   tupstore (snd (scan_entry env ifa l w)) =
     tupstore w @ (if ipv4_bound ifa \<and> converts env ifa then [expected_record env ifa] else [])"
  by (rule scan_entry_cases [where ifa = ifa and env = env])
     (simp_all add: scan_entry_no_addr scan_entry_other_family
        scan_entry_ipv4_failed scan_entry_ipv4_converted read_and_store_tupstore
        expected_record_def)

lemma scan_entry_open_files [simp]:
  "open_files (snd (scan_entry env ifa l w)) = open_files w"
  by (rule scan_entry_cases [where ifa = ifa and env = env])
     (simp_all add: scan_entry_no_addr scan_entry_other_family
        scan_entry_ipv4_failed scan_entry_ipv4_converted)

lemma scan_entry_ifaddrs_held [simp]:
  "ifaddrs_held (snd (scan_entry env ifa l w)) = ifaddrs_held w"
  by (rule scan_entry_cases [where ifa = ifa and env = env])
     (simp_all add: scan_entry_no_addr scan_entry_other_family
        scan_entry_ipv4_failed scan_entry_ipv4_converted)

lemma scan_loop_step:
  "scan_loop env (ifa # rest) l w =
     (if aborts_at env ifa then (Inl (projl (fst (scan_entry env ifa l w))), snd (scan_entry env ifa l w))
      else scan_loop env rest (projr (fst (scan_entry env ifa l w))) (snd (scan_entry env ifa l w)))"
  using scan_entry_result [of env ifa l w]
  by (cases "scan_entry env ifa l w"; cases "fst (scan_entry env ifa l w)") auto

lemma scan_loop_result:
  "isl (fst (scan_loop env ifaddr l w)) = (\<exists>ifa\<in>set ifaddr. aborts_at env ifa)"
  by (induction ifaddr arbitrary: l w) (simp_all add: scan_loop_step del: scan_loop.simps(2))

lemma scan_loop_held [simp]:
  "ifaddrs_held (snd (scan_loop env ifaddr l w)) = ifaddrs_held w"
  by (induction ifaddr arbitrary: l w) (simp_all add: scan_loop_step del: scan_loop.simps(2))

lemma scan_loop_open_files [simp]:
  "open_files (snd (scan_loop env ifaddr l w)) = open_files w"
  by (induction ifaddr arbitrary: l w) (simp_all add: scan_loop_step del: scan_loop.simps(2))

lemma scan_loop_tupstore:
  "scratch_clear l \<Longrightarrow>
   tupstore (snd (scan_loop env ifaddr l w)) =
     tupstore w @ map (expected_record env)
       (filter ipv4_bound (takeWhile (\<lambda>ifa. \<not> aborts_at env ifa) ifaddr))"
proof (induction ifaddr arbitrary: l w)
  case Nil
  then show ?case by simp
next
  case (Cons ifa rest)
  show ?case
  proof (cases "aborts_at env ifa")
    case True
    then show ?thesis
      using Cons.prems by (simp add: scan_loop_step scan_entry_tupstore aborts_at_def del: scan_loop.simps(2))
  next
    case False
    then obtain l' where l': "fst (scan_entry env ifa l w) = Inr l'"
      using scan_entry_result [of env ifa l w] by (cases "fst (scan_entry env ifa l w)") auto
    then have "scratch_clear l'"
      using scan_entry_scratch [OF Cons.prems, of env ifa w l' "snd (scan_entry env ifa l w)"]
      by (metis prod.collapse)
    from Cons.IH [OF this] l' False Cons.prems show ?thesis
      by (simp add: scan_loop_step scan_entry_tupstore aborts_at_def del: scan_loop.simps(2))
  qed
qed

lemmas host_defs = simulated_host_def inet_def packet_def AF_INET_def EAI_MEMORY_def

lemmas scan_defs = ReadNetworkInformations_def scan_entry_def read_and_store_def
  Read_defs ReadFileContent_def ereport_def tuplestore_putvalues_def freeifaddrs_def
  initial_locals_def memcpy_strlen_def empty_world_def Let_def split_beta

lemmas parse_defs = getline_def newline_def atoll_def isspace_def isdigit_def
  digit_value_def LLONG_MAX_def LLONG_MIN_def

subsection \<open>The whole scan\<close>

lemma ReadNetworkInformations_scan:
  "getifaddrs env = Some ifaddr \<Longrightarrow>
   ReadNetworkInformations env w =
     (case scan_loop env ifaddr initial_locals (w\<lparr>ifaddrs_held := ifaddrs_held w + 1\<rparr>) of
        (Inl e, w') \<Rightarrow> (Inl e, w')
      | (Inr l', w') \<Rightarrow> (Inr (), freeifaddrs w'))"
  by (simp add: ReadNetworkInformations_def)

lemma ReadNetworkInformations_result:
  "getifaddrs env = Some ifaddr \<Longrightarrow>
   isl (fst (ReadNetworkInformations env w)) = (\<exists>ifa\<in>set ifaddr. aborts_at env ifa)"
  using scan_loop_result [of env ifaddr initial_locals "w\<lparr>ifaddrs_held := ifaddrs_held w + 1\<rparr>"]
  by (auto simp add: ReadNetworkInformations_scan split: prod.splits sum.splits)

lemma ReadNetworkInformations_tupstore:
  "getifaddrs env = Some ifaddr \<Longrightarrow>
   tupstore (snd (ReadNetworkInformations env w)) =
     tupstore w @ map (expected_record env)
       (filter ipv4_bound (takeWhile (\<lambda>ifa. \<not> aborts_at env ifa) ifaddr))"
  using scan_loop_tupstore [of initial_locals env ifaddr "w\<lparr>ifaddrs_held := ifaddrs_held w + 1\<rparr>"]
  by (auto simp add: ReadNetworkInformations_scan freeifaddrs_def split: prod.splits sum.splits)

lemma ReadNetworkInformations_held:
  assumes "getifaddrs env = Some ifaddr"
  shows "ifaddrs_held (snd (ReadNetworkInformations env w)) =
     (if \<exists>ifa\<in>set ifaddr. aborts_at env ifa then ifaddrs_held w + 1 else ifaddrs_held w)"
proof -
  let ?w1 = "w\<lparr>ifaddrs_held := ifaddrs_held w + 1\<rparr>"
  obtain r w' where r: "scan_loop env ifaddr initial_locals ?w1 = (r, w')"
    by (cases "scan_loop env ifaddr initial_locals ?w1")
  have held: "ifaddrs_held w' = ifaddrs_held w + 1"
    using scan_loop_held [of env ifaddr initial_locals ?w1] unfolding r by simp
  have res: "isl r = (\<exists>ifa\<in>set ifaddr. aborts_at env ifa)"
    using scan_loop_result [of env ifaddr initial_locals ?w1] r by simp
  show ?thesis
    using held res r assms
    by (cases r) (simp_all add: ReadNetworkInformations_scan freeifaddrs_def)
qed

lemma ReadNetworkInformations_open_files:
  "open_files (snd (ReadNetworkInformations env w)) = open_files w"
proof (cases "getifaddrs env")
  case None
  then show ?thesis by (simp add: ReadNetworkInformations_def ereport_def Let_def)
next
  case (Some ifaddr)
  let ?w1 = "w\<lparr>ifaddrs_held := ifaddrs_held w + 1\<rparr>"
  obtain r w' where r: "scan_loop env ifaddr initial_locals ?w1 = (r, w')"
    by (cases "scan_loop env ifaddr initial_locals ?w1")
  have "open_files w' = open_files w"
    using scan_loop_open_files [of env ifaddr initial_locals ?w1] unfolding r by simp
  then show ?thesis
    using r Some by (cases r) (simp_all add: ReadNetworkInformations_scan freeifaddrs_def)
qed

lemma getline_nothing:
  "fst (getline fp) \<le> 0 \<longleftrightarrow> fp = ReadError \<or> fp = Stream []"
  by (cases fp) (auto simp add: getline_def Let_def)

section \<open>Enumeration failure\<close>

text \<open>
  Claim C4. If the enumeration of the interfaces itself fails, the scan ends with the
  hard error that reports it (level \<^verbatim>\<open>ERROR\<close>, ``Failed to get network interface''),
  and the tuple store is exactly what it was before the call: no record is emitted
  before the failure reaches the caller.
\<close>

theorem enumeration_failure_is_hard_error:
  assumes "getifaddrs env = None"
  shows "ReadNetworkInformations env w =
           (Inl \<lparr>elevel = ERROR, sqlerrcode = ERRCODE_INVALID_PARAMETER_VALUE,
                 message = ''Failed to get network interface''\<rparr>,
            w\<lparr>server_log := server_log w @
                 [\<lparr>elevel = ERROR, sqlerrcode = ERRCODE_INVALID_PARAMETER_VALUE,
                   message = ''Failed to get network interface''\<rparr>]\<rparr>)
         \<and> tupstore (snd (ReadNetworkInformations env w)) = tupstore w"
  using assms by (simp add: ReadNetworkInformations_def ereport_def Let_def)

theorem enumeration_failure_is_hard_error_witness:
  "getifaddrs host_no_list = None \<and>
   ReadNetworkInformations host_no_list empty_world =
     (Inl \<lparr>elevel = ERROR, sqlerrcode = ERRCODE_INVALID_PARAMETER_VALUE,
           message = ''Failed to get network interface''\<rparr>,
      \<lparr>server_log = [\<lparr>elevel = ERROR, sqlerrcode = ERRCODE_INVALID_PARAMETER_VALUE,
                       message = ''Failed to get network interface''\<rparr>],
       tupstore = [], open_files = [], ifaddrs_held = 0\<rparr>)"
proof -
  have h: "getifaddrs host_no_list = None"
    by (simp add: host_no_list_def simulated_host_def)
  show ?thesis
    using h enumeration_failure_is_hard_error [OF h, of empty_world]
    by (simp add: empty_world_def)
qed

section \<open>The frame of ReadFileContent\<close>

text \<open>
  Claim C9. Whatever value \<open>v\<close> the output parameter holds before the call,
  \<^verbatim>\<open>ReadFileContent\<close> leaves \<^verbatim>\<open>*data\<close> equal to \<open>v\<close> whenever the file cannot be opened
  or the read of the first line returns no content (\<^verbatim>\<open>line_size <= 0\<close>).
\<close>

theorem data_kept_without_first_line:
  assumes "fopen env file_name = None \<or>
           (\<exists>fp. fopen env file_name = Some fp \<and> fst (getline fp) \<le> 0)"
  shows "fst (ReadFileContent env file_name v w) = v"
  using assms by (auto simp add: ReadFileContent_value)

theorem data_kept_without_first_line_witness:
  "fopen (host_with_file ''/sys/class/net/eth0/speed'' ReadError) ''/sys/class/net/eth0/statistics/rx_bytes'' = None
   \<and> fst (ReadFileContent (host_with_file ''/sys/class/net/eth0/speed'' ReadError)
        ''/sys/class/net/eth0/statistics/rx_bytes'' 7 empty_world) = 7
   \<and> fopen (host_with_file ''/sys/class/net/eth0/speed'' ReadError) ''/sys/class/net/eth0/speed'' = Some ReadError
   \<and> fst (getline ReadError) \<le> 0
   \<and> fst (ReadFileContent (host_with_file ''/sys/class/net/eth0/speed'' ReadError)
        ''/sys/class/net/eth0/speed'' 7 empty_world) = 7"
proof -
  let ?env = "host_with_file ''/sys/class/net/eth0/speed'' ReadError"
  have a: "fopen ?env ''/sys/class/net/eth0/statistics/rx_bytes'' = None"
    by (simp add: host_with_file_def simulated_host_def)
  have b: "fopen ?env ''/sys/class/net/eth0/speed'' = Some ReadError"
    by (simp add: host_with_file_def simulated_host_def)
  have c: "fst (getline ReadError) \<le> 0"
    by (simp add: getline_def)
  from a have a': "fopen ?env ''/sys/class/net/eth0/statistics/rx_bytes'' = None \<or>
      (\<exists>fp. fopen ?env ''/sys/class/net/eth0/statistics/rx_bytes'' = Some fp \<and> fst (getline fp) \<le> 0)"
    by blast
  from b c have b': "fopen ?env ''/sys/class/net/eth0/speed'' = None \<or>
      (\<exists>fp. fopen ?env ''/sys/class/net/eth0/speed'' = Some fp \<and> fst (getline fp) \<le> 0)"
    by blast
  show ?thesis
    using a b c data_kept_without_first_line [OF a', of 7 empty_world]
      data_kept_without_first_line [OF b', of 7 empty_world]
    by blast
qed

section \<open>A failed address conversion\<close>

text \<open>
  Claim C1 says that when the numeric-host conversion of an address entry fails, the
  scan logs an error-level diagnostic, leaves the address field null, still stores the
  record of that interface and goes on to the next entry. On a host whose first entry
  \<open>eth0\<close> does not convert and whose second entry \<open>eth1\<close> does, the source logs the
  diagnostic and leaves the function at once: the report is the result of the call, no
  record is stored for \<open>eth0\<close>, and \<open>eth1\<close> is never visited.
\<close>

theorem conversion_failure_aborts_scan:
  "ReadNetworkInformations host_first_fails empty_world =
     (Inl \<lparr>elevel = ERROR, sqlerrcode = ERRCODE_INVALID_PARAMETER_VALUE,
           message = ''getnameinfo() failed: Memory allocation failure''\<rparr>,
      \<lparr>server_log = [\<lparr>elevel = ERROR, sqlerrcode = ERRCODE_INVALID_PARAMETER_VALUE,
                       message = ''getnameinfo() failed: Memory allocation failure''\<rparr>],
       tupstore = [], open_files = [], ifaddrs_held = 1\<rparr>)"
  by (simp add: host_first_fails_def host_defs scan_defs)

text \<open>
  Claim C3 says that every acquired resource is released on every exit path, the
  interface list also when the scan ends early with a hard error. On a host whose second
  entry does not convert, the call ends with the error report while the list obtained
  from \<^verbatim>\<open>getifaddrs\<close> is still held: \<^verbatim>\<open>freeifaddrs\<close> is not reached.
\<close>

theorem interface_list_kept_after_conversion_error:
  "fst (ReadNetworkInformations host_last_fails empty_world) =
     Inl \<lparr>elevel = ERROR, sqlerrcode = ERRCODE_INVALID_PARAMETER_VALUE,
          message = ''getnameinfo() failed: Memory allocation failure''\<rparr>
   \<and> ifaddrs_held empty_world = 0
   \<and> ifaddrs_held (snd (ReadNetworkInformations host_last_fails empty_world)) = 1"
  by (simp add: host_last_fails_def host_defs scan_defs)

text \<open>
  Claim C7 says that an enumeration with N entries bound to an IPv4 address yields
  exactly N records. On a host with three such entries, the second of which does not
  convert, the tuple store holds the single record of the first entry when the call ends
  (with the error report).
\<close>

theorem fewer_records_than_ipv4_entries:
  "map_option (\<lambda>ifaddr. length (filter ipv4_bound ifaddr)) (getifaddrs host_middle_fails) = Some 3
   \<and> map net_interface_name
        (tupstore (snd (ReadNetworkInformations host_middle_fails empty_world))) = [''eth0'']
   \<and> isl (fst (ReadNetworkInformations host_middle_fails empty_world))"
  by (simp add: host_middle_fails_def host_defs scan_defs ipv4_bound_def)

section \<open>Records and interface names\<close>

lemma expected_record_name [simp]:
  "net_interface_name (expected_record env ifa) = ifa_name ifa"
  by (simp add: expected_record_def)

lemma expected_record_counter:
  "counter_field k (expected_record env ifa) = counter_value env k (ifa_name ifa)"
  by (cases k) (simp_all add: counter_field_def expected_record_def)

lemma counter_value_world:
  "fst (ReadCounter env k interface 0 w) = counter_value env k interface"
  by (simp add: ReadCounter_path ReadFileContent_fst counter_value_path)

lemma distinct_prefix:
  "prefix xs ys \<Longrightarrow> distinct ys \<Longrightarrow> distinct xs"
  by (auto simp add: prefix_def)

lemma takeWhile_reaches:
  "\<forall>x\<in>set pre. P x \<Longrightarrow> P y \<Longrightarrow> takeWhile P (pre @ y # post) = pre @ y # takeWhile P post"
  by (induction pre) simp_all

text \<open>
  Claim C2 says that the produced sequence holds at most one record per distinct
  IPv4-bearing interface name, in OS enumeration order. An interface with two IPv4
  addresses is enumerated as two entries of the same name, and the scan stores a record
  for each: the claim fails on such a host.
\<close>

theorem record_duplicated_for_second_address:
  "map net_interface_name
     (tupstore (snd (ReadNetworkInformations host_two_addresses empty_world))) = [''eth0'', ''eth0'']
   \<and> \<not> distinct (map net_interface_name
        (tupstore (snd (ReadNetworkInformations host_two_addresses empty_world))))"
  by (simp add: host_two_addresses_def host_defs scan_defs)

text \<open>
  Claim C2, amended. When the enumeration succeeds, the scan appends to the tuple store
  one record per IPv4-bound address entry, in OS enumeration order: the names of the
  new records are an initial segment of the names of the IPv4-bound entries, and all of
  them, the call returning normally, when every such entry converts. So a name occurs
  once per IPv4 address entry that carries it, and at most once when the IPv4-bound
  entries have pairwise distinct names.
\<close>

theorem one_record_per_ipv4_entry:
  assumes "getifaddrs env = Some ifaddr"
  shows "take (length (tupstore w)) (tupstore (snd (ReadNetworkInformations env w))) = tupstore w
    \<and> prefix (map net_interface_name
                (drop (length (tupstore w)) (tupstore (snd (ReadNetworkInformations env w)))))
             (map ifa_name (filter ipv4_bound ifaddr))
    \<and> ((\<forall>ifa\<in>set ifaddr. ipv4_bound ifa \<longrightarrow> converts env ifa) \<longrightarrow>
          fst (ReadNetworkInformations env w) = Inr () \<and>
          map net_interface_name
            (drop (length (tupstore w)) (tupstore (snd (ReadNetworkInformations env w)))) =
          map ifa_name (filter ipv4_bound ifaddr))
    \<and> (distinct (map ifa_name (filter ipv4_bound ifaddr)) \<longrightarrow>
          distinct (map net_interface_name
            (drop (length (tupstore w)) (tupstore (snd (ReadNetworkInformations env w))))))"
proof -
  let ?P = "\<lambda>ifa. \<not> aborts_at env ifa"
  let ?rows = "drop (length (tupstore w)) (tupstore (snd (ReadNetworkInformations env w)))"
  have store: "tupstore (snd (ReadNetworkInformations env w)) =
      tupstore w @ map (expected_record env) (filter ipv4_bound (takeWhile ?P ifaddr))"
    by (rule ReadNetworkInformations_tupstore [OF assms])
  have names: "map net_interface_name ?rows = map ifa_name (filter ipv4_bound (takeWhile ?P ifaddr))"
    by (simp add: store comp_def)
  have pre: "prefix (map net_interface_name ?rows) (map ifa_name (filter ipv4_bound ifaddr))"
    unfolding names
    by (intro map_mono_prefix filter_mono_prefix takeWhile_is_prefix)
  have complete: "fst (ReadNetworkInformations env w) = Inr () \<and>
      map net_interface_name ?rows = map ifa_name (filter ipv4_bound ifaddr)"
    if "\<forall>ifa\<in>set ifaddr. ipv4_bound ifa \<longrightarrow> converts env ifa"
  proof -
    from that have all: "\<forall>ifa\<in>set ifaddr. ?P ifa"
      by (simp add: aborts_at_def)
    then have whole: "takeWhile ?P ifaddr = ifaddr"
      by simp
    have "\<not> isl (fst (ReadNetworkInformations env w))"
      using all by (simp add: ReadNetworkInformations_result [OF assms])
    then have "fst (ReadNetworkInformations env w) = Inr ()"
      by (cases "fst (ReadNetworkInformations env w)") simp_all
    then show ?thesis
      unfolding names whole by simp
  qed
  have "take (length (tupstore w)) (tupstore (snd (ReadNetworkInformations env w))) = tupstore w"
    by (simp add: store)
  with pre complete distinct_prefix [OF pre] show ?thesis
    by blast
qed

theorem one_record_per_ipv4_entry_witness:
  "getifaddrs host_scenario = Some [packet ''lo'', inet ''eth0'' [10, 0, 0, 5]]
   \<and> fst (ReadNetworkInformations host_scenario empty_world) = Inr ()
   \<and> map net_interface_name
        (tupstore (snd (ReadNetworkInformations host_scenario empty_world))) = [''eth0'']
   \<and> distinct (map net_interface_name
        (tupstore (snd (ReadNetworkInformations host_scenario empty_world))))"
proof -
  let ?ifaddr = "[packet ''lo'', inet ''eth0'' [10, 0, 0, 5]]"
  have list: "getifaddrs host_scenario = Some ?ifaddr"
    by (simp add: host_scenario_def simulated_host_def)
  have conv: "\<forall>ifa\<in>set ?ifaddr. ipv4_bound ifa \<longrightarrow> converts host_scenario ifa"
    by (simp add: host_scenario_def host_defs ipv4_bound_def converts_def)
  have bound: "map ifa_name (filter ipv4_bound ?ifaddr) = [''eth0'']"
    by (simp add: host_defs ipv4_bound_def)
  have dist: "distinct (map ifa_name (filter ipv4_bound ?ifaddr))"
    unfolding bound by simp
  note scan = one_record_per_ipv4_entry [OF list, of empty_world]
  from scan conv have completed:
    "fst (ReadNetworkInformations host_scenario empty_world) = Inr () \<and>
     map net_interface_name (drop (length (tupstore empty_world))
       (tupstore (snd (ReadNetworkInformations host_scenario empty_world)))) =
     map ifa_name (filter ipv4_bound ?ifaddr)"
    by blast
  from scan dist have
    "distinct (map net_interface_name (drop (length (tupstore empty_world))
       (tupstore (snd (ReadNetworkInformations host_scenario empty_world)))))"
    by blast
  with list completed show ?thesis
    unfolding bound by (simp add: empty_world_def)
qed

section \<open>A counter source that cannot be opened\<close>

lemma ReadFileContent_unopened:
  "fopen env p = None \<Longrightarrow>
   ReadFileContent env p d w = (d, w\<lparr>server_log := server_log w @ [open_warning p]\<rparr>)"
  by (simp add: ReadFileContent_def ereport_def open_warning_def Let_def)

lemma ReadNetworkInformations_reaches:
  assumes "getifaddrs env = Some (pre @ ifa # post)"
    and "ipv4_bound ifa" and "converts env ifa"
    and "\<forall>x\<in>set pre. ipv4_bound x \<longrightarrow> converts env x"
  shows "expected_record env ifa \<in>
           set (drop (length (tupstore w)) (tupstore (snd (ReadNetworkInformations env w))))"
proof -
  let ?P = "\<lambda>ifa. \<not> aborts_at env ifa"
  have "\<forall>x\<in>set pre. ?P x" and "?P ifa"
    using assms(2-4) by (simp_all add: aborts_at_def)
  then have "takeWhile ?P (pre @ ifa # post) = pre @ ifa # takeWhile ?P post"
    by (rule takeWhile_reaches)
  then show ?thesis
    using assms(2) by (simp add: ReadNetworkInformations_tupstore [OF assms(1)])
qed

text \<open>
  Claim C5 says that for every interface name and every counter kind whose file cannot
  be opened, the counter reader warns with the path, returns \<^verbatim>\<open>ok=false\<close> with the
  value at the caller's default 0, does not raise, and the scan still emits a record
  for that interface. The readers return nothing (\<^verbatim>\<open>void\<close>): what the caller gets back
  for a file that cannot be opened is what it gets for a file that holds \<^verbatim>\<open>0\<close>, and
  no flag tells the two apart. And a record is stored only for an entry the scan
  reaches: on the host whose first entry does not convert, \<open>eth1\<close> is IPv4-bound, its
  address converts, none of its counter files can be opened, and no record is stored.
\<close>

theorem unopenable_counter_without_flag_or_record:
  "fopen host_first_fails (counter_path receive_bytes ''eth1'') = None
   \<and> ipv4_bound (inet ''eth1'' [10, 0, 0, 5])
   \<and> converts host_first_fails (inet ''eth1'' [10, 0, 0, 5])
   \<and> tupstore (snd (ReadNetworkInformations host_first_fails empty_world)) = []
   \<and> fst (ReadCounter host_first_fails receive_bytes ''eth1'' 0 empty_world) =
       fst (ReadCounter
             (host_with_file (counter_path receive_bytes ''eth1'') (Stream ''0\<newline>''))
             receive_bytes ''eth1'' 0 empty_world)"
  by (simp add: host_first_fails_def host_with_file_def host_defs scan_defs counter_path_def
      ipv4_bound_def converts_def ReadCounter_def parse_defs)

text \<open>
  Claim C5, amended. For every interface name and every counter kind whose file cannot
  be opened, the counter reader logs one warning that names the path it tried, leaves
  the counter at the value the caller supplied (0 in the scan) and returns to its
  caller: the report is below \<^verbatim>\<open>ERROR\<close>. It returns no flag; the failure shows in the
  warning and in the unchanged counter only. In a scan that reaches an IPv4-bound
  entry of that name whose address converts, a record of that name is stored in which
  this counter is 0 and every counter is what its own reader delivers.
\<close>

theorem unopenable_counter_defaults_to_zero:
  assumes "fopen env (counter_path k interface) = None"
  shows "ReadCounter env k interface d w =
           (d, w\<lparr>server_log := server_log w @
                 [\<lparr>elevel = WARNING, sqlerrcode = errcode_for_file_access,
                   message = ''can not open file '' @ counter_path k interface @
                             '' for reading network statistics''\<rparr>]\<rparr>)
    \<and> fst (ereport WARNING errcode_for_file_access
             (''can not open file '' @ counter_path k interface @
              '' for reading network statistics'') w) = Inr ()
    \<and> (\<forall>pre ifa post.
          getifaddrs env = Some (pre @ ifa # post) \<and> ifa_name ifa = interface \<and>
          ipv4_bound ifa \<and> converts env ifa \<and>
          (\<forall>x\<in>set pre. ipv4_bound x \<longrightarrow> converts env x) \<longrightarrow>
          (\<exists>row\<in>set (drop (length (tupstore w))
                        (tupstore (snd (ReadNetworkInformations env w)))).
             net_interface_name row = interface \<and>
             counter_field k row = 0 \<and>
             (\<forall>k'. counter_field k' row = fst (ReadCounter env k' interface 0 w))))"
proof -
  have first: "ReadCounter env k interface d w =
      (d, w\<lparr>server_log := server_log w @ [open_warning (counter_path k interface)]\<rparr>)"
    by (simp add: ReadCounter_path ReadFileContent_unopened [OF assms])
  have zero: "counter_value env k interface = 0"
    using ReadFileContent_unopened [OF assms, of 0 empty_world]
    by (simp add: counter_value_def ReadCounter_path)
  have second: "\<exists>row\<in>set (drop (length (tupstore w))
                        (tupstore (snd (ReadNetworkInformations env w)))).
             net_interface_name row = interface \<and>
             counter_field k row = 0 \<and>
             (\<forall>k'. counter_field k' row = fst (ReadCounter env k' interface 0 w))"
    if "getifaddrs env = Some (pre @ ifa # post)" "ifa_name ifa = interface"
      "ipv4_bound ifa" "converts env ifa" "\<forall>x\<in>set pre. ipv4_bound x \<longrightarrow> converts env x"
    for pre ifa post
  proof (rule bexI [OF _ ReadNetworkInformations_reaches [OF that(1) that(3) that(4) that(5)]])
    show "net_interface_name (expected_record env ifa) = interface \<and>
        counter_field k (expected_record env ifa) = 0 \<and>
        (\<forall>k'. counter_field k' (expected_record env ifa) = fst (ReadCounter env k' interface 0 w))"
      using that(2) zero by (simp add: expected_record_counter counter_value_world)
  qed
  have returns: "fst (ereport WARNING errcode_for_file_access
             (''can not open file '' @ counter_path k interface @
              '' for reading network statistics'') w) = Inr ()"
    by (simp add: ereport_def Let_def)
  from first returns second show ?thesis
    unfolding open_warning_def by blast
qed

theorem unopenable_counter_defaults_to_zero_witness:
  "fopen host_scenario (counter_path transmit_bytes ''eth0'') = None
   \<and> ReadCounter host_scenario transmit_bytes ''eth0'' 0 empty_world =
       (0, \<lparr>server_log =
               [\<lparr>elevel = WARNING, sqlerrcode = errcode_for_file_access,
                 message = ''can not open file /sys/class/net/eth0/statistics/tx_bytes for reading network statistics''\<rparr>],
             tupstore = [], open_files = [], ifaddrs_held = 0\<rparr>)
   \<and> (\<exists>row\<in>set (tupstore (snd (ReadNetworkInformations host_scenario empty_world))).
         net_interface_name row = ''eth0'' \<and> net_tx_bytes row = 0 \<and> net_rx_bytes row = 500)"
proof -
  let ?eth0 = "inet ''eth0'' [10, 0, 0, 5]"
  have absent: "fopen host_scenario (counter_path transmit_bytes ''eth0'') = None"
    by (simp add: host_scenario_def simulated_host_def counter_path_def)
  have list: "getifaddrs host_scenario = Some ([packet ''lo''] @ ?eth0 # [])"
    by (simp add: host_scenario_def simulated_host_def)
  have entry: "ifa_name ?eth0 = ''eth0''" "ipv4_bound ?eth0" "converts host_scenario ?eth0"
    by (simp_all add: host_scenario_def host_defs ipv4_bound_def converts_def)
  have before: "\<forall>x\<in>set [packet ''lo'']. ipv4_bound x \<longrightarrow> converts host_scenario x"
    by (simp add: host_defs ipv4_bound_def)
  have rx: "fst (ReadCounter host_scenario receive_bytes ''eth0'' 0 empty_world) = 500"
    by (simp add: ReadCounter_def ReadReceiveBytes_def ReadFileContent_def
        host_scenario_def simulated_host_def parse_defs Let_def)
  note main = unopenable_counter_defaults_to_zero [OF absent, of 0 empty_world]
  from main have warn: "ReadCounter host_scenario transmit_bytes ''eth0'' 0 empty_world =
      (0, empty_world\<lparr>server_log := server_log empty_world @
           [\<lparr>elevel = WARNING, sqlerrcode = errcode_for_file_access,
             message = ''can not open file '' @ counter_path transmit_bytes ''eth0'' @
                       '' for reading network statistics''\<rparr>]\<rparr>)"
    by blast
  from main list entry before obtain row where
    row: "row \<in> set (drop (length (tupstore empty_world))
                      (tupstore (snd (ReadNetworkInformations host_scenario empty_world))))"
      "net_interface_name row = ''eth0''" "counter_field transmit_bytes row = 0"
      "\<forall>k'. counter_field k' row = fst (ReadCounter host_scenario k' ''eth0'' 0 empty_world)"
    by blast
  from row(4) have "counter_field receive_bytes row =
      fst (ReadCounter host_scenario receive_bytes ''eth0'' 0 empty_world)" ..
  with rx have "net_rx_bytes row = 500"
    by (simp add: counter_field_def)
  with row(1-3) have "\<exists>row\<in>set (tupstore (snd (ReadNetworkInformations host_scenario empty_world))).
         net_interface_name row = ''eth0'' \<and> net_tx_bytes row = 0 \<and> net_rx_bytes row = 500"
    by (auto simp add: counter_field_def empty_world_def)
  with absent warn show ?thesis
    by (simp add: counter_path_def empty_world_def)
qed

section \<open>Parsing the first line\<close>

lemma isdigit_not_newline: "isdigit c \<Longrightarrow> c \<noteq> newline"
  by (auto simp add: isdigit_def newline_def)

lemma isdigit_not_space: "isdigit c \<Longrightarrow> \<not> isspace c"
  by (auto simp add: isdigit_def isspace_def)

lemma isdigit_not_sign: "isdigit c \<Longrightarrow> c \<noteq> CHR ''-'' \<and> c \<noteq> CHR ''+''"
  by (auto simp add: isdigit_def)

lemma digits_value_digits:
  "\<forall>c\<in>set ds. isdigit c \<Longrightarrow> digits_value acc ds = acc * 10 ^ length ds + decimal ds"
  by (induction ds arbitrary: acc) (simp_all add: algebra_simps)

lemma digits_value_stop:
  "rest = [] \<or> \<not> isdigit (hd rest) \<Longrightarrow> digits_value acc rest = acc"
  by (cases rest) auto

lemma digits_value_append:
  "\<forall>c\<in>set ds. isdigit c \<Longrightarrow> digits_value acc (ds @ rest) = digits_value (digits_value acc ds) rest"
  by (induction ds arbitrary: acc) simp_all

lemma digits_value_prefix:
  "\<forall>c\<in>set ds. isdigit c \<Longrightarrow> rest = [] \<or> \<not> isdigit (hd rest) \<Longrightarrow>
   digits_value 0 (ds @ rest) = decimal ds"
  by (simp add: digits_value_append digits_value_stop digits_value_digits)

lemma getline_line:
  assumes "s \<noteq> []"
  obtains tail where
    "snd (getline (Stream s)) = takeWhile (\<lambda>c. c \<noteq> newline) s @ tail"
    "tail = [] \<or> tail = [newline]"
    "0 < fst (getline (Stream s))"
proof (cases "length (takeWhile (\<lambda>c. c \<noteq> newline) s) < length s")
  case True
  with assms show ?thesis
    using that [of "[newline]"] by (simp add: getline_def Let_def)
next
  case False
  then have "takeWhile (\<lambda>c. c \<noteq> newline) s \<noteq> []"
    using assms by auto
  with False assms show ?thesis
    using that [of "[]"] by (simp add: getline_def Let_def)
qed

lemma not_isdigit_newline: "\<not> isdigit newline"
  by (simp add: isdigit_def newline_def)

lemma first_line_digits:
  assumes "\<forall>c\<in>set pre. c \<noteq> newline" "\<forall>c\<in>set ds. isdigit c"
    "rest = [] \<or> \<not> isdigit (hd rest)" "pre @ ds \<noteq> []"
  obtains rest' where
    "snd (getline (Stream (pre @ ds @ rest))) = pre @ ds @ rest'"
    "rest' = [] \<or> \<not> isdigit (hd rest')"
    "0 < fst (getline (Stream (pre @ ds @ rest)))"
proof -
  let ?P = "\<lambda>c. c \<noteq> newline"
  from assms(4) have "pre @ ds @ rest \<noteq> []" by auto
  then obtain tail where tail:
    "snd (getline (Stream (pre @ ds @ rest))) = takeWhile ?P (pre @ ds @ rest) @ tail"
    "tail = [] \<or> tail = [newline]"
    "0 < fst (getline (Stream (pre @ ds @ rest)))"
    by (rule getline_line)
  have "\<forall>c\<in>set ds. ?P c"
    using assms(2) isdigit_not_newline by blast
  with assms(1) have split: "takeWhile ?P (pre @ ds @ rest) = pre @ ds @ takeWhile ?P rest"
    by simp
  have stop: "takeWhile ?P rest @ tail = [] \<or> \<not> isdigit (hd (takeWhile ?P rest @ tail))"
  proof (cases rest)
    case Nil
    with tail(2) show ?thesis by (auto simp add: not_isdigit_newline)
  next
    case (Cons c cs)
    with assms(3) have "\<not> isdigit c" by simp
    with Cons tail(2) show ?thesis by (auto simp add: not_isdigit_newline)
  qed
  show ?thesis
    using that [of "takeWhile ?P rest @ tail"] tail(1,3) split stop by simp
qed

lemma atoll_digits:
  assumes "ds \<noteq> []" "\<forall>c\<in>set ds. isdigit c" "rest = [] \<or> \<not> isdigit (hd rest)"
  shows "atoll (ds @ rest) = min LLONG_MAX (decimal ds)"
proof -
  from assms(1) obtain c cs where ds: "ds = c # cs" by (cases ds) auto
  with assms(2) have c: "isdigit c" by simp
  then have "dropWhile isspace (ds @ rest) = ds @ rest"
    using ds isdigit_not_space by simp
  moreover have "digits_value 0 (ds @ rest) = decimal ds"
    using assms(2,3) by (rule digits_value_prefix)
  ultimately show ?thesis
    using c isdigit_not_sign [of c] ds by (simp add: atoll_def)
qed

lemma atoll_minus_digits:
  assumes "\<forall>c\<in>set ds. isdigit c" "rest = [] \<or> \<not> isdigit (hd rest)"
  shows "atoll (CHR ''-'' # ds @ rest) = max LLONG_MIN (- decimal ds)"
proof -
  have "digits_value 0 (ds @ rest) = decimal ds"
    using assms by (rule digits_value_prefix)
  then show ?thesis
    by (simp add: atoll_def isspace_def)
qed

lemma digits_value_no_digit:
  "\<forall>c\<in>set s. \<not> isdigit c \<Longrightarrow> digits_value acc s = acc"
  by (cases s) simp_all

lemma atoll_no_digit:
  assumes "\<forall>c\<in>set s. \<not> isdigit c"
  shows "atoll s = 0"
proof (cases "dropWhile isspace s")
  case Nil
  show ?thesis
    unfolding atoll_def Let_def Nil by simp
next
  case (Cons c cs)
  have "set (dropWhile isspace s) \<subseteq> set s"
    by (auto dest: set_dropWhileD)
  with assms have "\<forall>x\<in>set (c # cs). \<not> isdigit x"
    unfolding Cons by blast
  then have "digits_value 0 cs = 0" "digits_value 0 (c # cs) = 0"
    by (simp_all add: digits_value_no_digit)
  then show ?thesis
    unfolding atoll_def Let_def Cons
    by (simp add: LLONG_MAX_def LLONG_MIN_def del: digits_value.simps)
qed

lemma first_line_no_digit:
  assumes "s \<noteq> []" "\<forall>c\<in>set s. \<not> isdigit c"
  shows "0 < fst (getline (Stream s)) \<and> atoll (snd (getline (Stream s))) = 0"
proof -
  from assms(1) obtain tail where tail:
    "snd (getline (Stream s)) = takeWhile (\<lambda>c. c \<noteq> newline) s @ tail"
    "tail = [] \<or> tail = [newline]"
    "0 < fst (getline (Stream s))"
    by (rule getline_line)
  have "set (takeWhile (\<lambda>c. c \<noteq> newline) s) \<subseteq> set s"
    by (auto dest: set_takeWhileD)
  with assms(2) tail(1,2) have "\<forall>c\<in>set (snd (getline (Stream s))). \<not> isdigit c"
    by (auto simp add: not_isdigit_newline)
  then show ?thesis
    using tail(3) by (simp add: atoll_no_digit)
qed

lemma digit_value_range: "isdigit c \<Longrightarrow> 0 \<le> digit_value c \<and> digit_value c \<le> 9"
  by (auto simp add: isdigit_def digit_value_def)

lemma decimal_nonneg: "\<forall>c\<in>set ds. isdigit c \<Longrightarrow> 0 \<le> decimal ds"
  by (induction ds) (simp_all add: digit_value_range)

lemma ReadFileContent_opened:
  "fopen env p = Some fp \<Longrightarrow> 0 < fst (getline fp) \<Longrightarrow>
   ReadFileContent env p d w = (word_of_int (atoll (snd (getline fp))), w)"
  by (simp add: ReadFileContent_def Let_def split_beta)

lemma uint_long_long:
  "0 \<le> n \<Longrightarrow> n \<le> LLONG_MAX \<Longrightarrow> uint (word_of_int n :: 64 word) = n"
  by (simp add: LLONG_MAX_def uint_word_of_int take_bit_int_eq_self)

lemma uint_negative_long_long:
  assumes "LLONG_MIN \<le> n" "n < 0"
  shows "uint (word_of_int n :: 64 word) = 2 ^ 64 + n"
proof -
  have "0 \<le> n + 2 ^ 64" "n + 2 ^ 64 < 2 ^ 64"
    using assms by (simp_all add: LLONG_MIN_def)
  then have "(n + 2 ^ 64) mod 2 ^ 64 = n + 2 ^ 64"
    by (rule mod_pos_pos_trivial)
  moreover have "(n + 2 ^ 64) mod 2 ^ 64 = n mod 2 ^ 64"
    by simp
  ultimately show ?thesis
    by (simp add: uint_word_of_int take_bit_eq_mod)
qed

lemma wrapped_nonzero:
  "uint (x :: 64 word) = 2 ^ 64 - min (2 ^ 63) d \<Longrightarrow> x \<noteq> 0"
proof
  assume a: "uint x = 2 ^ 64 - min (2 ^ 63) d" and "x = 0"
  then have "min (2 ^ 63) d = (2 ^ 64 :: int)" by simp
  moreover have "min (2 ^ 63) d \<le> (2 ^ 63 :: int)" by simp
  ultimately have "(2 ^ 64 :: int) \<le> 2 ^ 63" by simp
  then show False by simp
qed

lemma sint_long_long:
  assumes "LLONG_MIN \<le> n" "n < 0"
  shows "sint (word_of_int n :: 64 word) = n"
proof -
  have "- (2 ^ 63) \<le> n" "n < 2 ^ 63"
    using assms by (simp_all add: LLONG_MIN_def)
  then have "signed_take_bit 63 n = n"
    by (rule signed_take_bit_int_eq_self)
  then show ?thesis
    by (simp add: sint_sbintrunc')
qed

section \<open>What a counter file yields\<close>

text \<open>
  Claim C6 says that a source that opens is parsed permissively: \<^verbatim>\<open>"12345\n"\<close> yields
  12345, a leading numeric prefix followed by other text yields the value of that
  prefix, and content that is not numeric yields 0. The conversion is \<^verbatim>\<open>atoll\<close>, whose
  result is a \<^verbatim>\<open>long long\<close>: for the prefix 9223372036854775808 (\<open>2 ^ 63\<close>, a value an
  unsigned 64-bit counter can hold) the counter receives 9223372036854775807, not the
  value of the prefix; for 18446744073709551616 (\<open>2 ^ 64\<close>) no 64-bit counter could
  hold the value of the prefix.
\<close>

theorem prefix_beyond_long_long_is_clamped:
  "decimal ''9223372036854775808'' = 9223372036854775808
   \<and> uint (fst (ReadFileContent
        (host_with_file ''/sys/class/net/eth0/statistics/rx_bytes''
           (Stream ''9223372036854775808\<newline>''))
        ''/sys/class/net/eth0/statistics/rx_bytes'' 0 empty_world)) = 9223372036854775807
   \<and> decimal ''18446744073709551616'' = 18446744073709551616
   \<and> uint (fst (ReadFileContent
        (host_with_file ''/sys/class/net/eth0/statistics/rx_bytes''
           (Stream ''18446744073709551616\<newline>''))
        ''/sys/class/net/eth0/statistics/rx_bytes'' 0 empty_world)) = 9223372036854775807"
  by (simp add: host_with_file_def simulated_host_def ReadFileContent_def parse_defs Let_def)

text \<open>
  Claim C6, amended. For a counter file that opens and delivers the text \<open>s\<close>:
  \<^verbatim>\<open>"12345\n"\<close> yields 12345; a leading run of decimal digits whose value is at most
  \<open>2 ^ 63 - 1\<close>, followed by nothing or by a character that is not a digit, yields the
  value of that run; a non-empty text without any digit yields 0. In each case no
  diagnostic is logged and the file is closed again: the world is as before the call.
\<close>

theorem numeric_prefix_is_parsed:
  assumes "fopen env file_name = Some (Stream s)"
  shows "(s = ''12345\<newline>'' \<longrightarrow> ReadFileContent env file_name data w = (12345, w))
    \<and> (\<forall>ds rest.
          s = ds @ rest \<and> ds \<noteq> [] \<and> (\<forall>c\<in>set ds. isdigit c) \<and>
          (rest = [] \<or> \<not> isdigit (hd rest)) \<and> decimal ds \<le> LLONG_MAX \<longrightarrow>
          ReadFileContent env file_name data w = (word_of_int (decimal ds), w) \<and>
          uint (fst (ReadFileContent env file_name data w)) = decimal ds)
    \<and> (s \<noteq> [] \<and> (\<forall>c\<in>set s. \<not> isdigit c) \<longrightarrow>
          ReadFileContent env file_name data w = (0, w))"
proof -
  have prefix: "ReadFileContent env file_name data w = (word_of_int (decimal ds), w) \<and>
      uint (fst (ReadFileContent env file_name data w)) = decimal ds"
    if "s = ds @ rest" "ds \<noteq> []" "\<forall>c\<in>set ds. isdigit c"
      "rest = [] \<or> \<not> isdigit (hd rest)" "decimal ds \<le> LLONG_MAX"
    for ds rest
  proof -
    note hyp = that
    have none: "\<forall>c\<in>set []. c \<noteq> newline" and some: "[] @ ds \<noteq> []"
      using hyp(2) by simp_all
    obtain rest' where line:
      "snd (getline (Stream ([] @ ds @ rest))) = [] @ ds @ rest'"
      "rest' = [] \<or> \<not> isdigit (hd rest')"
      "0 < fst (getline (Stream ([] @ ds @ rest)))"
      by (rule first_line_digits [OF none hyp(3) hyp(4) some])
    have "atoll (ds @ rest') = min LLONG_MAX (decimal ds)"
      using hyp(2,3) line(2) by (rule atoll_digits)
    with hyp(5) have "atoll (snd (getline (Stream s))) = decimal ds"
      using line(1) hyp(1) by simp
    moreover have "0 < fst (getline (Stream s))"
      using line(3) hyp(1) by simp
    ultimately have "ReadFileContent env file_name data w = (word_of_int (decimal ds), w)"
      using ReadFileContent_opened [OF assms, of data w] by simp
    then show ?thesis
      using uint_long_long [OF decimal_nonneg [OF hyp(3)] hyp(5)] by simp
  qed
  have example: "ReadFileContent env file_name data w = (12345, w)" if "s = ''12345\<newline>''"
    using ReadFileContent_opened [OF assms, of data w] that
    by (simp add: parse_defs)
  have other: "ReadFileContent env file_name data w = (0, w)"
    if "s \<noteq> []" "\<forall>c\<in>set s. \<not> isdigit c"
    using ReadFileContent_opened [OF assms, of data w] first_line_no_digit [OF that]
    by simp
  from prefix example other show ?thesis
    by blast
qed


theorem numeric_prefix_is_parsed_witness:
  "ReadFileContent (host_with_file ''/sys/class/net/eth0/statistics/rx_bytes'' (Stream ''12345\<newline>''))
     ''/sys/class/net/eth0/statistics/rx_bytes'' 0 empty_world = (12345, empty_world)
   \<and> uint (fst (ReadFileContent (host_with_file ''/sys/class/net/eth0/speed'' (Stream ''1000Mb/s\<newline>''))
     ''/sys/class/net/eth0/speed'' 0 empty_world)) = 1000
   \<and> ReadFileContent (host_with_file ''/sys/class/net/eth0/speed'' (Stream ''abc\<newline>''))
     ''/sys/class/net/eth0/speed'' 7 empty_world = (0, empty_world)"
proof -
  let ?rx = "''/sys/class/net/eth0/statistics/rx_bytes''"
  let ?speed = "''/sys/class/net/eth0/speed''"
  have a: "fopen (host_with_file ?rx (Stream ''12345\<newline>'')) ?rx = Some (Stream ''12345\<newline>'')"
    by (simp add: host_with_file_def simulated_host_def)
  have b: "fopen (host_with_file ?speed (Stream ''1000Mb/s\<newline>'')) ?speed = Some (Stream ''1000Mb/s\<newline>'')"
    by (simp add: host_with_file_def simulated_host_def)
  have c: "fopen (host_with_file ?speed (Stream ''abc\<newline>'')) ?speed = Some (Stream ''abc\<newline>'')"
    by (simp add: host_with_file_def simulated_host_def)
  have first: "ReadFileContent (host_with_file ?rx (Stream ''12345\<newline>'')) ?rx 0 empty_world
      = (12345, empty_world)"
    using numeric_prefix_is_parsed [OF a, of 0 empty_world] by blast
  have digits: "''1000Mb/s\<newline>'' = ''1000'' @ ''Mb/s\<newline>'' \<and> ''1000'' \<noteq> [] \<and>
      (\<forall>c\<in>set ''1000''. isdigit c) \<and>
      (''Mb/s\<newline>'' = [] \<or> \<not> isdigit (hd ''Mb/s\<newline>'')) \<and> decimal ''1000'' \<le> LLONG_MAX"
    by (simp add: isdigit_def digit_value_def LLONG_MAX_def)
  have "uint (fst (ReadFileContent (host_with_file ?speed (Stream ''1000Mb/s\<newline>''))
      ?speed 0 empty_world)) = decimal ''1000''"
    using numeric_prefix_is_parsed [OF b, of 0 empty_world] digits by blast
  then have second: "uint (fst (ReadFileContent (host_with_file ?speed (Stream ''1000Mb/s\<newline>''))
      ?speed 0 empty_world)) = 1000"
    by (simp add: digit_value_def)
  have other: "''abc\<newline>'' \<noteq> [] \<and> (\<forall>c\<in>set ''abc\<newline>''. \<not> isdigit c)"
    by (simp add: isdigit_def)
  have third: "ReadFileContent (host_with_file ?speed (Stream ''abc\<newline>'')) ?speed 7 empty_world
      = (0, empty_world)"
    using numeric_prefix_is_parsed [OF c, of 7 empty_world] other by blast
  from first second third show ?thesis
    by blast
qed

text \<open>
  Claim C10 says that a negative first line is stored into the unsigned counter modulo
  \<open>2 ^ 64\<close>, so that the emitted field is the huge wrapped value, not 0 and not a
  negative number. The counter does hold the wrapped value, but the field is emitted
  with \<^verbatim>\<open>Int64GetDatumFast\<close> (lines 244 to 252), that is, as a signed 64-bit integer
  of the same 64 bits: for the speed file \<^verbatim>\<open>-1\<close> of a virtual interface the emitted
  integer is \<open>-1\<close>.
\<close>

theorem stored_speed_is_negative_as_int64:
  "fopen host_virtual ''/sys/class/net/veth0/speed'' = Some (Stream ''-1\<newline>'')
   \<and> map (\<lambda>row. sint (net_speed_mbps row))
        (tupstore (snd (ReadNetworkInformations host_virtual empty_world))) = [- 1]"
  by (simp add: host_virtual_def host_defs scan_defs parse_defs)

text \<open>
  Claim C10, amended. For every counter kind: when the first line of the counter file
  is a minus sign followed by decimal digits of value \<open>n > 0\<close> (the speed file of a
  virtual interface reports \<^verbatim>\<open>-1\<close>), the signed value that \<^verbatim>\<open>atoll\<close> returns (\<open>- n\<close>,
  with \<open>n\<close> capped at \<open>2 ^ 63\<close>, the range of \<^verbatim>\<open>long long\<close>) is stored into the unsigned
  64-bit counter modulo \<open>2 ^ 64\<close>: the counter holds \<open>2 ^ 64 - n\<close>, which is not 0. In
  a scan that reaches an IPv4-bound entry of that interface whose address converts, the
  stored record carries these 64 bits in the field of that counter: \<open>2 ^ 64 - n\<close> read
  as unsigned, and the negative number \<open>- n\<close> read as the signed 64-bit integer it is
  emitted as.
\<close>

theorem negative_first_line_wraps:
  assumes "fopen env (counter_path k interface) = Some (Stream (CHR ''-'' # ds @ rest))"
    and "\<forall>c\<in>set ds. isdigit c"
    and "rest = [] \<or> \<not> isdigit (hd rest)"
    and "0 < decimal ds"
  shows "fst (ReadCounter env k interface d w) = word_of_int (max LLONG_MIN (- decimal ds))
    \<and> uint (fst (ReadCounter env k interface d w)) = 2 ^ 64 - min (2 ^ 63) (decimal ds)
    \<and> fst (ReadCounter env k interface d w) \<noteq> 0
    \<and> sint (fst (ReadCounter env k interface d w)) = - min (2 ^ 63) (decimal ds)
    \<and> (\<forall>pre ifa post.
          getifaddrs env = Some (pre @ ifa # post) \<and> ifa_name ifa = interface \<and>
          ipv4_bound ifa \<and> converts env ifa \<and>
          (\<forall>x\<in>set pre. ipv4_bound x \<longrightarrow> converts env x) \<longrightarrow>
          (\<exists>row\<in>set (drop (length (tupstore w))
                        (tupstore (snd (ReadNetworkInformations env w)))).
             net_interface_name row = interface \<and>
             uint (counter_field k row) = 2 ^ 64 - min (2 ^ 63) (decimal ds) \<and>
             sint (counter_field k row) = - min (2 ^ 63) (decimal ds)))"
proof -
  let ?p = "counter_path k interface"
  let ?n = "max LLONG_MIN (- decimal ds)"
  have minus: "\<forall>c\<in>set [CHR ''-'']. c \<noteq> newline" and some: "[CHR ''-''] @ ds \<noteq> []"
    by (simp_all add: newline_def)
  obtain rest' where line:
    "snd (getline (Stream ([CHR ''-''] @ ds @ rest))) = [CHR ''-''] @ ds @ rest'"
    "rest' = [] \<or> \<not> isdigit (hd rest')"
    "0 < fst (getline (Stream ([CHR ''-''] @ ds @ rest)))"
    by (rule first_line_digits [OF minus assms(2) assms(3) some])
  have "atoll (CHR ''-'' # ds @ rest') = ?n"
    using assms(2) line(2) by (rule atoll_minus_digits)
  then have parsed: "\<And>d w'. ReadCounter env k interface d w' = (word_of_int ?n, w')"
    using ReadFileContent_opened [OF assms(1)] line(1,3) by (simp add: ReadCounter_path)
  have range: "LLONG_MIN \<le> ?n" "?n < 0"
    using assms(4) by (simp_all add: LLONG_MIN_def)
  have amount: "?n = - min (2 ^ 63) (decimal ds)"
    by (simp add: LLONG_MIN_def)
  then have "2 ^ 64 + ?n = 2 ^ 64 - min (2 ^ 63) (decimal ds)"
    by simp
  with uint_negative_long_long [OF range]
  have wrapped: "uint (word_of_int ?n :: 64 word) = 2 ^ 64 - min (2 ^ 63) (decimal ds)"
    by simp
  then have nonzero: "(word_of_int ?n :: 64 word) \<noteq> 0"
    by (rule wrapped_nonzero)
  have signed: "sint (word_of_int ?n :: 64 word) = - min (2 ^ 63) (decimal ds)"
    using sint_long_long [OF range] amount by simp
  have stored: "counter_value env k interface = word_of_int ?n"
    using parsed [of 0 empty_world] by (simp add: counter_value_def)
  have scan: "\<exists>row\<in>set (drop (length (tupstore w))
                        (tupstore (snd (ReadNetworkInformations env w)))).
             net_interface_name row = interface \<and>
             uint (counter_field k row) = 2 ^ 64 - min (2 ^ 63) (decimal ds) \<and>
             sint (counter_field k row) = - min (2 ^ 63) (decimal ds)"
    if "getifaddrs env = Some (pre @ ifa # post)" "ifa_name ifa = interface"
      "ipv4_bound ifa" "converts env ifa" "\<forall>x\<in>set pre. ipv4_bound x \<longrightarrow> converts env x"
    for pre ifa post
  proof (rule bexI [OF _ ReadNetworkInformations_reaches [OF that(1) that(3) that(4) that(5)]])
    show "net_interface_name (expected_record env ifa) = interface \<and>
        uint (counter_field k (expected_record env ifa)) = 2 ^ 64 - min (2 ^ 63) (decimal ds) \<and>
        sint (counter_field k (expected_record env ifa)) = - min (2 ^ 63) (decimal ds)"
      using that(2) stored wrapped signed by (simp add: expected_record_counter)
  qed
  from parsed [of d w] wrapped nonzero signed scan show ?thesis
    by (simp only: fst_conv) blast
qed

theorem negative_first_line_wraps_witness:
  "fopen host_virtual ''/sys/class/net/veth0/speed'' = Some (Stream ''-1\<newline>'')
   \<and> uint (fst (ReadCounter host_virtual link_speed ''veth0'' 0 empty_world)) = 18446744073709551615
   \<and> fst (ReadCounter host_virtual link_speed ''veth0'' 0 empty_world) \<noteq> 0
   \<and> sint (fst (ReadCounter host_virtual link_speed ''veth0'' 0 empty_world)) = - 1
   \<and> (\<exists>row\<in>set (tupstore (snd (ReadNetworkInformations host_virtual empty_world))).
         net_interface_name row = ''veth0'' \<and>
         uint (net_speed_mbps row) = 18446744073709551615 \<and>
         sint (net_speed_mbps row) = - 1)"
proof -
  let ?veth0 = "inet ''veth0'' [10, 0, 0, 9]"
  have speed_file: "fopen host_virtual (counter_path link_speed ''veth0'') =
      Some (Stream (CHR ''-'' # ''1'' @ ''\<newline>''))"
    by (simp add: host_virtual_def simulated_host_def counter_path_def)
  have digits: "\<forall>c\<in>set ''1''. isdigit c"
    and stop: "''\<newline>'' = [] \<or> \<not> isdigit (hd ''\<newline>'')"
    and positive: "0 < decimal ''1''"
    by (simp_all add: isdigit_def digit_value_def)
  have amount: "2 ^ 64 - min (2 ^ 63) (decimal ''1'') = (18446744073709551615 :: int)"
    "- min (2 ^ 63) (decimal ''1'') = (- 1 :: int)"
    by (simp_all add: digit_value_def)
  have list: "getifaddrs host_virtual = Some ([] @ ?veth0 # [])"
    by (simp add: host_virtual_def simulated_host_def)
  have entry: "ifa_name ?veth0 = ''veth0''" "ipv4_bound ?veth0" "converts host_virtual ?veth0"
    by (simp_all add: host_virtual_def host_defs ipv4_bound_def converts_def)
  have before: "\<forall>x\<in>set []. ipv4_bound x \<longrightarrow> converts host_virtual x"
    by simp
  note main = negative_first_line_wraps [OF speed_file digits stop positive, of 0 empty_world]
  from main have read:
    "uint (fst (ReadCounter host_virtual link_speed ''veth0'' 0 empty_world)) =
       2 ^ 64 - min (2 ^ 63) (decimal ''1'')"
    "fst (ReadCounter host_virtual link_speed ''veth0'' 0 empty_world) \<noteq> 0"
    "sint (fst (ReadCounter host_virtual link_speed ''veth0'' 0 empty_world)) =
       - min (2 ^ 63) (decimal ''1'')"
    by blast+
  from main list entry before obtain row where
    "row \<in> set (drop (length (tupstore empty_world))
                   (tupstore (snd (ReadNetworkInformations host_virtual empty_world))))"
    "net_interface_name row = ''veth0''"
    "uint (counter_field link_speed row) = 2 ^ 64 - min (2 ^ 63) (decimal ''1'')"
    "sint (counter_field link_speed row) = - min (2 ^ 63) (decimal ''1'')"
    by blast
  then have "\<exists>row\<in>set (tupstore (snd (ReadNetworkInformations host_virtual empty_world))).
         net_interface_name row = ''veth0'' \<and>
         uint (net_speed_mbps row) = 18446744073709551615 \<and>
         sint (net_speed_mbps row) = - 1"
    unfolding amount by (auto simp add: empty_world_def counter_field_def)
  moreover have "fopen host_virtual ''/sys/class/net/veth0/speed'' = Some (Stream ''-1\<newline>'')"
    by (simp add: host_virtual_def simulated_host_def)
  ultimately show ?thesis
    using read unfolding amount by simp
qed

section \<open>Scratch state between iterations\<close>

lemma scratch_clear_eq:
  "scratch_clear l \<Longrightarrow> scratch_clear l2 \<Longrightarrow> l2 = l\<lparr>host := host l2\<rparr>"
  by (cases l; cases l2) (simp add: scratch_clear_def)

lemma scan_entry_host:
  "snd (scan_entry env ifa (l\<lparr>host := h\<rparr>) w) = snd (scan_entry env ifa l w)"
  by (rule scan_entry_cases [where ifa = ifa and env = env])
     (simp_all add: scan_entry_no_addr scan_entry_other_family
        scan_entry_ipv4_failed scan_entry_ipv4_converted)

text \<open>
  Claim C8 says that between two consecutive iterations all working scratch state is
  reset: name, address and counter fields, null flags, and the address-conversion
  buffer. The buffer \<^verbatim>\<open>host\<close> is cleared once, before the loop (line 195); the reset
  at the end of the \<^verbatim>\<open>AF_INET\<close> branch (lines 257 to 268) does not touch it. After the
  iteration for \<open>eth0\<close> it still holds the numeric form of the address of \<open>eth0\<close>.
\<close>

theorem conversion_buffer_kept_after_entry:
  "fst (scan_entry host_scenario (inet ''eth0'' [10, 0, 0, 5]) initial_locals empty_world) =
     Inr (initial_locals\<lparr>host := ''10.0.0.5''\<rparr>)
   \<and> host initial_locals = []
   \<and> initial_locals\<lparr>host := ''10.0.0.5''\<rparr> \<noteq> initial_locals"
  by (simp add: host_scenario_def host_defs scan_entry_def read_and_store_def Let_def split_beta
      initial_locals_def)

text \<open>
  Claim C8, amended. The loop starts with name, address and counter fields zeroed and
  no null flag set, and every iteration that returns leaves them so for the next entry.
  The address-conversion buffer is not reset between iterations, but what an iteration
  stores in the tuple store and writes to the log is the same whatever the buffer held
  on entry: no value computed for one interface appears in the record of a later one.
\<close>

theorem scratch_clear_between_entries:
  assumes "scratch_clear l"
  shows "scratch_clear initial_locals
    \<and> (\<forall>l' w'. scan_entry env ifa l w = (Inr l', w') \<longrightarrow> scratch_clear l')
    \<and> (\<forall>l2. scratch_clear l2 \<longrightarrow>
          snd (scan_entry env ifa l2 w) = snd (scan_entry env ifa l w))"
proof -
  have same: "snd (scan_entry env ifa l2 w) = snd (scan_entry env ifa l w)"
    if "scratch_clear l2" for l2
  proof -
    from assms that have "l2 = l\<lparr>host := host l2\<rparr>"
      by (rule scratch_clear_eq)
    then have "snd (scan_entry env ifa l2 w) = snd (scan_entry env ifa (l\<lparr>host := host l2\<rparr>) w)"
      by simp
    then show ?thesis
      by (simp only: scan_entry_host)
  qed
  from same scan_entry_scratch [OF assms] show ?thesis
    by (simp del: scratch_clear_host)
qed

theorem scratch_clear_between_entries_witness:
  "scratch_clear initial_locals
   \<and> scratch_clear (initial_locals\<lparr>host := ''10.0.0.5''\<rparr>)
   \<and> fst (scan_entry host_scenario (inet ''eth0'' [10, 0, 0, 5]) initial_locals empty_world) =
       Inr (initial_locals\<lparr>host := ''10.0.0.5''\<rparr>)
   \<and> snd (scan_entry host_scenario (inet ''eth0'' [10, 0, 0, 5])
            (initial_locals\<lparr>host := ''192.0.2.1''\<rparr>) empty_world) =
       snd (scan_entry host_scenario (inet ''eth0'' [10, 0, 0, 5]) initial_locals empty_world)"
proof -
  let ?eth0 = "inet ''eth0'' [10, 0, 0, 5]"
  have clear: "scratch_clear initial_locals"
    by (simp add: scratch_clear_def initial_locals_def)
  have stale: "scratch_clear (initial_locals\<lparr>host := ''192.0.2.1''\<rparr>)"
    by (simp add: scratch_clear_def initial_locals_def)
  have step: "fst (scan_entry host_scenario ?eth0 initial_locals empty_world) =
      Inr (initial_locals\<lparr>host := ''10.0.0.5''\<rparr>)"
    by (simp add: host_scenario_def host_defs scan_entry_def read_and_store_def Let_def split_beta
        initial_locals_def)
  then have pair: "scan_entry host_scenario ?eth0 initial_locals empty_world =
      (Inr (initial_locals\<lparr>host := ''10.0.0.5''\<rparr>),
       snd (scan_entry host_scenario ?eth0 initial_locals empty_world))"
    by (metis prod.collapse)
  note main = scratch_clear_between_entries [OF clear, of host_scenario ?eth0 empty_world]
  from main pair have "scratch_clear (initial_locals\<lparr>host := ''10.0.0.5''\<rparr>)"
    by blast
  moreover from main stale have
    "snd (scan_entry host_scenario ?eth0 (initial_locals\<lparr>host := ''192.0.2.1''\<rparr>) empty_world) =
     snd (scan_entry host_scenario ?eth0 initial_locals empty_world)"
    by blast
  ultimately show ?thesis
    using clear step by simp
qed

end
